theory Spec2Isabelle
  imports
    Main
    "HOL-Library.Sublist"
    "HOL-Library.Char_ord"
    "HOL-Library.List_Lexorder"
begin

section \<open>Strings\<close>

text \<open>
  A JavaScript string is a sequence of UTF-16 code units, and \<open>===\<close>, \<open>includes\<close>, the
  keys of a \<open>Set\<close> and the order of \<open>Array.prototype.sort\<close> without a comparator all
  work on code units. The strings of the dataset and of the query, on which the program
  uses these, are modelled as they are: a \<open>jstring\<close> is the list of the code units. \<open>js\<close>
  turns a literal of ASCII characters into the string of its code units.
\<close>

type_synonym jstring = "nat list"

definition js :: "string \<Rightarrow> jstring" where
  "js s = map of_char s"

text \<open>
  \<open>String.prototype.toLowerCase\<close> is part of the language, not of the repository, and
  folds all of Unicode. The functions that call it on a string of the dataset or of the
  query take it as their first argument, \<open>lower\<close>, and every statement about them holds
  for any function in its place. \<open>latin1LowerCase\<close> is the function used where an
  example is evaluated: on a string of code units below 256 it is \<open>toLowerCase\<close>, which
  there folds \<open>A\<close> to \<open>Z\<close> and U+00C0 to U+00DE but for the sign U+00D7.
\<close>

definition latin1LowerCase :: "jstring \<Rightarrow> jstring" where
  "latin1LowerCase s =
     map (\<lambda>u. if (65 \<le> u \<and> u \<le> 90) \<or> (192 \<le> u \<and> u \<le> 222 \<and> u \<noteq> 215) then u + 32 else u) s"

text \<open>
  The method, the path, the names and values of headers and the keys of the extension
  table are strings that the program only compares with ASCII literals, cuts at \<open>/\<close> and
  \<open>.\<close> and joins; they are held as a \<^typ>\<open>string\<close>, the bytes of the UTF-8 encoding,
  on which these operations give the same result. \<open>toLowerCase\<close> below is applied to
  one thing only, the extension of a file path before it is looked up in the extension
  table; it folds the letters \<open>A\<close> to \<open>Z\<close>. No other character can make a difference
  to the look-up: the only characters outside ASCII whose lower case has an ASCII letter
  are U+212A, which gives \<open>k\<close>, a letter of no key of the table, and U+0130, which gives
  \<open>i\<close> followed by U+0307.
\<close>

definition lowerChar :: "char \<Rightarrow> char" where
  "lowerChar c =
     (case map_of (zip ''ABCDEFGHIJKLMNOPQRSTUVWXYZ'' ''abcdefghijklmnopqrstuvwxyz'') c of
        None \<Rightarrow> c
      | Some d \<Rightarrow> d)"

definition toLowerCase :: "string \<Rightarrow> string" where
  "toLowerCase s = map lowerChar s"

text \<open>
  \<open>s.includes(t)\<close>, named \<open>str_includes\<close> because \<open>includes\<close> is a keyword here:
  \<open>t\<close> starts at some position of \<open>s\<close>.
\<close>

fun str_includes :: "'a list \<Rightarrow> 'a list \<Rightarrow> bool" where
  "str_includes [] t = (t = [])"
| "str_includes (c # cs) t = (prefix t (c # cs) \<or> str_includes cs t)"

text \<open>\<open>s.startsWith(t)\<close>.\<close>

definition startsWith :: "'a list \<Rightarrow> 'a list \<Rightarrow> bool" where
  "startsWith s t = prefix t s"

text \<open>
  Truthiness of a value that is a string, \<open>null\<close> or \<open>undefined\<close>: only a non-empty
  string is truthy.
\<close>

fun truthy :: "'a list option \<Rightarrow> bool" where
  "truthy None = False"
| "truthy (Some s) = (s \<noteq> [])"

text \<open>
  \<open>s.replace(pat, rep)\<close> with a string pattern: only the first occurrence is replaced.
\<close>

fun replaceFirst :: "string \<Rightarrow> string \<Rightarrow> string \<Rightarrow> string" where
  "replaceFirst pat rep [] = (if pat = [] then rep else [])"
| "replaceFirst pat rep (c # cs) =
     (if prefix pat (c # cs) then rep @ drop (length pat) (c # cs)
      else c # replaceFirst pat rep cs)"

subsection \<open>Paths\<close>

text \<open>
  The POSIX flavour of Node's \<open>path\<close> module, as far as the handlers use it. A path is
  cut at every \<open>/\<close>; \<open>normalizeSegments\<close> drops empty and \<open>.\<close> segments and lets a
  \<open>..\<close> cancel the segment before it (a relative path keeps a leading \<open>..\<close>, an
  absolute one drops it).
\<close>

fun splitOn :: "char \<Rightarrow> string \<Rightarrow> string list" where
  "splitOn sep [] = [[]]"
| "splitOn sep (c # cs) =
     (if c = sep then [] # splitOn sep cs
      else (case splitOn sep cs of
              [] \<Rightarrow> [[c]]
            | w # ws \<Rightarrow> (c # w) # ws))"

fun joinWith :: "char \<Rightarrow> string list \<Rightarrow> string" where
  "joinWith sep [] = []"
| "joinWith sep [s] = s"
| "joinWith sep (s # t # ss) = s @ sep # joinWith sep (t # ss)"

definition normalizeStep :: "bool \<Rightarrow> string list \<Rightarrow> string \<Rightarrow> string list" where
  "normalizeStep allowAboveRoot res seg =
     (if seg = [] \<or> seg = ''.'' then res
      else if seg = ''..'' then
        (if res \<noteq> [] \<and> last res \<noteq> ''..'' then butlast res
         else if allowAboveRoot then res @ [''..'']
         else res)
      else res @ [seg])"

definition normalizeSegments :: "bool \<Rightarrow> string list \<Rightarrow> string list" where
  "normalizeSegments allowAboveRoot segs =
     fold (\<lambda>seg res. normalizeStep allowAboveRoot res seg) segs []"

definition path_normalize :: "string \<Rightarrow> string" where
  "path_normalize p =
     (if p = [] then ''.''
      else
        (let isAbsolute = (hd p = CHR ''/'');
             trailingSeparator = (last p = CHR ''/'');
             res = joinWith CHR ''/'' (normalizeSegments (\<not> isAbsolute) (splitOn CHR ''/'' p))
         in if res = [] then
              (if isAbsolute then ''/'' else if trailingSeparator then ''./'' else ''.'')
            else
              (let res = (if trailingSeparator then res @ ''/'' else res)
               in if isAbsolute then CHR ''/'' # res else res)))"

text \<open>\<open>path.join(a, b)\<close>: the non-empty arguments, joined by \<open>/\<close>, then normalized.\<close>

definition path_join :: "string \<Rightarrow> string \<Rightarrow> string" where
  "path_join a b =
     (let parts = filter (\<lambda>s. s \<noteq> []) [a, b]
      in if parts = [] then ''.'' else path_normalize (joinWith CHR ''/'' parts))"

text \<open>
  \<open>path.extname(p)\<close>: in the last non-empty segment of \<open>p\<close>, the text from the last dot
  on; empty when that segment has no dot, when its last dot is its first character, and
  when the segment is \<open>..\<close>.
\<close>

definition extname :: "string \<Rightarrow> string" where
  "extname p =
     (case filter (\<lambda>s. s \<noteq> []) (splitOn CHR ''/'' p) of
        [] \<Rightarrow> []
      | s # ss \<Rightarrow>
          (let b = last (s # ss);
               after = rev (takeWhile (\<lambda>c. c \<noteq> CHR ''.'') (rev b))
           in if CHR ''.'' \<notin> set b then []
              else if Suc (length after) = length b then []
              else if b = ''..'' then []
              else CHR ''.'' # after))"

subsection \<open>Buffers\<close>

text \<open>
  A \<open>Buffer\<close> is the list of its bytes. \<open>Buffer.prototype.toString()\<close> decodes them as
  UTF-8 and puts U+FFFD in the place of every ill-formed sequence, one for each maximal
  part of it that begins a well-formed sequence and one for each byte that begins none.
  The string it returns is held as the bytes of its UTF-8 encoding, in which it leaves
  the process: \<open>bufferToString\<close> copies the well-formed sequences and writes the three
  bytes of U+FFFD for the others. The bounds of the first continuation byte exclude the
  overlong forms, the surrogates and the code points above U+10FFFF.
\<close>

definition replacementCharacter :: string where
  "replacementCharacter = [CHR 0xEF, CHR 0xBF, CHR 0xBD]"

definition byteIn :: "nat \<Rightarrow> nat \<Rightarrow> char \<Rightarrow> bool" where
  "byteIn lo hi c = (lo \<le> of_char c \<and> (of_char c :: nat) \<le> hi)"

fun bufferToString :: "string \<Rightarrow> string" where
  "bufferToString [] = []"
| "bufferToString (b # bs) =
     (if byteIn 0x00 0x7F b then b # bufferToString bs
      else if byteIn 0xC2 0xDF b then
        (case bs of
           [] \<Rightarrow> replacementCharacter
         | c # cs \<Rightarrow>
             if byteIn 0x80 0xBF c then b # c # bufferToString cs
             else replacementCharacter @ bufferToString bs)
      else if byteIn 0xE0 0xEF b then
        (case bs of
           [] \<Rightarrow> replacementCharacter
         | c # cs \<Rightarrow>
             if \<not> byteIn (if b = CHR 0xE0 then 0xA0 else 0x80)
                      (if b = CHR 0xED then 0x9F else 0xBF) c
             then replacementCharacter @ bufferToString bs
             else
               (case cs of
                  [] \<Rightarrow> replacementCharacter
                | d # ds \<Rightarrow>
                    if byteIn 0x80 0xBF d then b # c # d # bufferToString ds
                    else replacementCharacter @ bufferToString cs))
      else if byteIn 0xF0 0xF4 b then
        (case bs of
           [] \<Rightarrow> replacementCharacter
         | c # cs \<Rightarrow>
             if \<not> byteIn (if b = CHR 0xF0 then 0x90 else 0x80)
                      (if b = CHR 0xF4 then 0x8F else 0xBF) c
             then replacementCharacter @ bufferToString bs
             else
               (case cs of
                  [] \<Rightarrow> replacementCharacter
                | d # ds \<Rightarrow>
                    if \<not> byteIn 0x80 0xBF d then replacementCharacter @ bufferToString cs
                    else
                      (case ds of
                         [] \<Rightarrow> replacementCharacter
                       | e # es \<Rightarrow>
                           if byteIn 0x80 0xBF e then b # c # d # e # bufferToString es
                           else replacementCharacter @ bufferToString ds)))
      else replacementCharacter @ bufferToString bs)"

text \<open>
  Well-formed UTF-8, after the table of well-formed byte sequences of the Unicode
  standard (table 3-7): the property of a file that the decoding leaves as it is.
\<close>

fun wellFormedUtf8 :: "string \<Rightarrow> bool" where
  "wellFormedUtf8 [] = True"
| "wellFormedUtf8 (b # bs) =
     (if byteIn 0x00 0x7F b then wellFormedUtf8 bs
      else if byteIn 0xC2 0xDF b then
        (case bs of
           c # cs \<Rightarrow> byteIn 0x80 0xBF c \<and> wellFormedUtf8 cs
         | _ \<Rightarrow> False)
      else if byteIn 0xE0 0xEF b then
        (case bs of
           c # d # ds \<Rightarrow>
             byteIn (if b = CHR 0xE0 then 0xA0 else 0x80) (if b = CHR 0xED then 0x9F else 0xBF) c \<and>
             byteIn 0x80 0xBF d \<and> wellFormedUtf8 ds
         | _ \<Rightarrow> False)
      else if byteIn 0xF0 0xF4 b then
        (case bs of
           c # d # e # es \<Rightarrow>
             byteIn (if b = CHR 0xF0 then 0x90 else 0x80) (if b = CHR 0xF4 then 0x8F else 0xBF) c \<and>
             byteIn 0x80 0xBF d \<and> byteIn 0x80 0xBF e \<and> wellFormedUtf8 es
         | _ \<Rightarrow> False)
      else False)"

text \<open>\<open>toString('base64')\<close> is the standard alphabet with \<open>=\<close> padding.\<close>

definition base64Alphabet :: string where
  "base64Alphabet = ''ABCDEFGHIJKLMNOPQRSTUVWXYZabcdefghijklmnopqrstuvwxyz0123456789+/''"

definition sextet :: "nat \<Rightarrow> char" where
  "sextet n = base64Alphabet ! (n mod 64)"

fun base64Bytes :: "nat list \<Rightarrow> string" where
  "base64Bytes [] = []"
| "base64Bytes [a] =
     [sextet (a div 4), sextet ((a mod 4) * 16), CHR ''='', CHR ''='']"
| "base64Bytes [a, b] =
     [sextet (a div 4), sextet ((a mod 4) * 16 + b div 16), sextet ((b mod 16) * 4), CHR ''='']"
| "base64Bytes (a # b # c # rest) =
     [sextet (a div 4), sextet ((a mod 4) * 16 + b div 16),
      sextet ((b mod 16) * 4 + c div 64), sextet (c mod 64)] @ base64Bytes rest"

definition bufferToBase64 :: "string \<Rightarrow> string" where
  "bufferToBase64 buf = base64Bytes (map of_char buf)"

subsection \<open>Sets that remember insertion order\<close>

text \<open>
  \<open>new Set(xs)\<close>, spread back into an array: the first occurrence of every value, in
  order.
\<close>

definition uniq :: "'a list \<Rightarrow> 'a list" where
  "uniq xs = fold (\<lambda>x acc. if x \<in> set acc then acc else acc @ [x]) xs []"

section \<open>Records of the dataset\<close>

record pgp_key =
  available :: bool
  keyId :: "jstring option"
  fingerprint :: "jstring option"

record filters =
  search :: "jstring option"
  sector :: "jstring option"
  country :: "jstring option"
  pgp :: "jstring option"

record cert =
  country :: jstring
  name :: jstring
  fullName :: jstring
  website :: jstring
  emergencyContact :: jstring
  email :: jstring
  established :: int
  description :: jstring
  sector :: jstring
  verified :: bool
  lastUpdated :: jstring
  pgpKey :: "pgp_key option"

section \<open>The filter pipeline\<close>

text \<open>
  The predicate of the search stage, given \<open>toLowerCase\<close> and the lower-cased search
  term.
\<close>

definition searchMatch :: "(jstring \<Rightarrow> jstring) \<Rightarrow> jstring \<Rightarrow> cert \<Rightarrow> bool" where
  "searchMatch lower searchTerm c =
     (str_includes (lower (cert.country c)) searchTerm \<or>
      str_includes (lower (name c)) searchTerm \<or>
      str_includes (lower (fullName c)) searchTerm \<or>
      str_includes (lower (cert.sector c)) searchTerm \<or>
      str_includes (lower (description c)) searchTerm)"

text \<open>The predicate of the PGP stage: \<open>cert.pgpKey && cert.pgpKey.available === true\<close>.\<close>

definition pgpMatch :: "cert \<Rightarrow> bool" where
  "pgpMatch c = (case pgpKey c of None \<Rightarrow> False | Some k \<Rightarrow> available k)"

text \<open>
  \<open>filterCerts\<close>: a copy of the input is narrowed by up to four stages, each one guarded
  by the test the source makes on its field of the filter object. Under a guard
  \<open>truthy\<close> the field holds a string, which \<open>the\<close> reads.
\<close>

definition filterCerts :: "(jstring \<Rightarrow> jstring) \<Rightarrow> cert list \<Rightarrow> filters \<Rightarrow> cert list" where
  "filterCerts lower certs f =
     (let filtered = certs;
          filtered =
            (if truthy (search f)
             then (let searchTerm = lower (the (search f))
                   in filter (searchMatch lower searchTerm) filtered)
             else filtered);
          filtered =
            (if truthy (filters.sector f) \<and> filters.sector f \<noteq> Some (js ''all'')
             then filter (\<lambda>c. lower (cert.sector c) = lower (the (filters.sector f))) filtered
             else filtered);
          filtered =
            (if truthy (filters.country f)
             then filter (\<lambda>c. lower (cert.country c) = lower (the (filters.country f))) filtered
             else filtered);
          filtered =
            (if pgp f = Some (js ''true'') then filter pgpMatch filtered else filtered)
      in filtered)"

subsection \<open>The pipeline on a heap of arrays\<close>

text \<open>
  The same function with the identity of arrays made explicit. The heap is the list of
  the arrays allocated so far and an array's address is its position in it. The spread
  \<open>[...certs]\<close> and every call of \<open>Array.prototype.filter\<close> allocate a new array; nothing
  writes to an array that exists. The argument \<open>certs\<close> is the address of an array of the
  heap, \<open>certs < length h\<close>.
\<close>

type_synonym heap = "cert list list"

definition alloc :: "heap \<Rightarrow> cert list \<Rightarrow> nat \<times> heap" where
  "alloc h xs = (length h, h @ [xs])"

definition filterCerts_heap ::
  "(jstring \<Rightarrow> jstring) \<Rightarrow> heap \<Rightarrow> nat \<Rightarrow> filters \<Rightarrow> nat \<times> heap" where
  "filterCerts_heap lower h certs f =
     (let (filtered, h) = alloc h (h ! certs);
          (filtered, h) =
            (if truthy (search f)
             then (let searchTerm = lower (the (search f))
                   in alloc h (filter (searchMatch lower searchTerm) (h ! filtered)))
             else (filtered, h));
          (filtered, h) =
            (if truthy (filters.sector f) \<and> filters.sector f \<noteq> Some (js ''all'')
             then alloc h
                    (filter (\<lambda>c. lower (cert.sector c) = lower (the (filters.sector f)))
                       (h ! filtered))
             else (filtered, h));
          (filtered, h) =
            (if truthy (filters.country f)
             then alloc h
                    (filter (\<lambda>c. lower (cert.country c) = lower (the (filters.country f)))
                       (h ! filtered))
             else (filtered, h));
          (filtered, h) =
            (if pgp f = Some (js ''true'') then alloc h (filter pgpMatch (h ! filtered))
             else (filtered, h))
      in (filtered, h))"

section \<open>The dataset and its cache\<close>

text \<open>
  What reading and parsing the backing file gives: \<open>readFileSync\<close> throws when the file
  is missing, \<open>JSON.parse\<close> throws when its text is not JSON, and otherwise the file
  holds a value. The program tells three kinds of truthy value apart: an array of
  records; a value that is not an array and has a \<open>length\<close> that is \<open>0\<close> (an object with
  that property); and every other value that is not an array (a number, \<open>true\<close>, a string,
  an object without such a \<open>length\<close>). The falsy values \<open>null\<close>, \<open>false\<close>, \<open>0\<close> and the
  empty string, which the program answers as it answers a missing file and never serves
  from the cache, and an array with an element that is not a record of the data model,
  are not values of the model.
\<close>

datatype dataset = Records "cert list" | ZeroLength | NotAnArray

datatype data_file = Missing | Unparsable | Parsed dataset

text \<open>The module variables \<open>certData\<close> (\<open>None\<close> is \<open>null\<close>) and \<open>certDataTimestamp\<close>.\<close>

record api_state =
  certData :: "dataset option"
  certDataTimestamp :: int

definition api_initial :: api_state where
  "api_initial = \<lparr>certData = None, certDataTimestamp = 0\<rparr>"

definition api_CACHE_TTL :: int where
  "api_CACHE_TTL = 600000"

text \<open>
  \<open>loadCertData\<close>, with the clock reading \<open>now\<close> and the file as arguments. Every value
  of the model, also the empty array, is truthy, so the first test only asks that
  something was stored. Both exceptions are raised before \<open>certData\<close> is assigned and
  end in the \<open>catch\<close> branch, which returns \<open>[]\<close>.
\<close>

definition reloadCertData :: "int \<Rightarrow> data_file \<Rightarrow> api_state \<Rightarrow> dataset \<times> api_state" where
  "reloadCertData now file st =
     (case file of
        Parsed d \<Rightarrow> (d, \<lparr>certData = Some d, certDataTimestamp = now\<rparr>)
      | Missing \<Rightarrow> (Records [], st)
      | Unparsable \<Rightarrow> (Records [], st))"

definition loadCertData :: "int \<Rightarrow> data_file \<Rightarrow> api_state \<Rightarrow> dataset \<times> api_state" where
  "loadCertData now file st =
     (case certData st of
        Some d \<Rightarrow>
          (if now - certDataTimestamp st < api_CACHE_TTL then (d, st)
           else reloadCertData now file st)
      | None \<Rightarrow> reloadCertData now file st)"

section \<open>Requests and responses\<close>

text \<open>
  The event of the hosting platform. \<open>requestContext\<close> holds the value of
  \<open>requestContext.http.method\<close>, and is \<open>None\<close> when that chain of properties is absent,
  so that reading it raises a \<open>TypeError\<close>. \<open>rawPath\<close> is \<open>None\<close> when the property is
  \<open>undefined\<close>. \<open>query\<close> is the list of name and value pairs that
  \<open>new URLSearchParams(rawQueryString || '')\<close> holds; its \<open>get\<close> returns the value of
  the first pair with the name, or \<open>null\<close>.
\<close>

record http_event =
  requestContext :: "string option"
  rawPath :: "string option"
  query :: "(jstring \<times> jstring) list"

text \<open>
  A response body. \<open>Text\<close> is a body given as a string. The other constructors stand
  for \<open>JSON.stringify\<close> of an object of the shape named. \<open>ErrorJson\<close>, \<open>CertsJson\<close> and
  \<open>CountriesJson\<close> carry the fields of the object, but for a timestamp. The bodies of
  \<open>/stats\<close>, \<open>/sectors\<close> and \<open>/health\<close> are functions of the records (and of the clock
  and the environment) that are not spelled out: \<open>StatsJson\<close> and \<open>SectorsJson\<close> carry
  the records that \<open>getStats\<close> and the grouping by sector are applied to, \<open>HealthJson\<close>
  their number.
\<close>

datatype body =
    Text string
  | ErrorJson string "string option"
  | CertsJson "cert list" nat "(string \<times> jstring) list"
  | StatsJson "cert list"
  | CountriesJson "(jstring \<times> nat) list"
  | SectorsJson "cert list"
  | HealthJson nat
  | HealthcheckJson string

record response =
  statusCode :: nat
  headers :: "string \<rightharpoonup> string"
  body :: body
  isBase64Encoded :: "bool option"

section \<open>The data API\<close>

definition api_corsHeaders :: "string \<rightharpoonup> string" where
  "api_corsHeaders = map_of
     [(''Access-Control-Allow-Origin'', ''https://cert.danieloo.com''),
      (''Access-Control-Allow-Headers'', ''Content-Type, Authorization''),
      (''Access-Control-Allow-Methods'', ''GET, POST, OPTIONS''),
      (''Access-Control-Max-Age'', ''86400'')]"

definition api_securityHeaders :: "string \<rightharpoonup> string" where
  "api_securityHeaders = map_of
     [(''X-Content-Type-Options'', ''nosniff''),
      (''X-Frame-Options'', ''DENY''),
      (''X-XSS-Protection'', ''1; mode=block'')]"

text \<open>
  The test \<open>!certs || certs.length === 0\<close> on what \<open>loadCertData\<close> returned.
\<close>

definition lengthIsZero :: "dataset \<Rightarrow> bool" where
  "lengthIsZero d = (d = Records [] \<or> d = ZeroLength)"

text \<open>The \<open>/countries\<close> view: the distinct countries, sorted, each with its count.\<close>

definition countriesView :: "cert list \<Rightarrow> (jstring \<times> nat) list" where
  "countriesView certs =
     map (\<lambda>country. (country, length (filter (\<lambda>c. cert.country c = country) certs)))
       (sort (uniq (map cert.country certs)))"

text \<open>
  The \<open>/sectors\<close> route groups the records in an object literal \<open>{}\<close>, which inherits the
  properties of \<open>Object.prototype\<close>. For a record whose sector is the name of one of
  them, \<open>acc[cert.sector]\<close> is that inherited function or object, which is truthy, so no
  group is created, and \<open>acc[cert.sector].certs.push\<close> raises a \<open>TypeError\<close>, since the
  inherited value has no \<open>certs\<close>. The \<open>reduce\<close> in \<open>getStats\<close> meets the same names but
  only adds and assigns, which raises nothing.
\<close>

definition objectPrototypeKeys :: "jstring list" where
  "objectPrototypeKeys = map js
     [''constructor'', ''__defineGetter__'', ''__defineSetter__'', ''hasOwnProperty'',
      ''__lookupGetter__'', ''__lookupSetter__'', ''isPrototypeOf'', ''propertyIsEnumerable'',
      ''toString'', ''valueOf'', ''__proto__'', ''toLocaleString'']"

definition sectorsThrows :: "cert list \<Rightarrow> bool" where
  "sectorsThrows certs = (\<exists>c \<in> set certs. cert.sector c \<in> set objectPrototypeKeys)"

text \<open>The filter object of a request, and the entries of it that are not \<open>null\<close>.\<close>

definition parseFilters :: "(jstring \<times> jstring) list \<Rightarrow> filters" where
  "parseFilters q =
     \<lparr>search = map_of q (js ''search''),
      filters.sector = map_of q (js ''sector''),
      filters.country = map_of q (js ''country''),
      pgp = map_of q (js ''pgp'')\<rparr>"

definition suppliedFilters :: "filters \<Rightarrow> (string \<times> jstring) list" where
  "suppliedFilters f =
     concat (map (\<lambda>(k, v). case v of None \<Rightarrow> [] | Some s \<Rightarrow> [(k, s)])
       [(''search'', search f), (''sector'', filters.sector f),
        (''country'', filters.country f), (''pgp'', pgp f)])"

definition api_error :: "nat \<Rightarrow> string \<Rightarrow> string \<Rightarrow> response" where
  "api_error status err msg =
     \<lparr>statusCode = status,
      headers = [''Content-Type'' \<mapsto> ''application/json''] ++ api_corsHeaders ++ api_securityHeaders,
      body = ErrorJson err (Some msg),
      isBase64Encoded = None\<rparr>"

definition api_ok :: "string \<Rightarrow> body \<Rightarrow> response" where
  "api_ok apiPath b =
     \<lparr>statusCode = 200,
      headers =
        [''Content-Type'' \<mapsto> ''application/json'',
         ''Cache-Control'' \<mapsto> (if apiPath = ''/health'' then ''no-cache'' else ''public, max-age=300'')]
        ++ api_corsHeaders ++ api_securityHeaders,
      body = b,
      isBase64Encoded = None\<rparr>"

text \<open>The answer of the \<open>catch\<close> block.\<close>

definition api_unexpected :: response where
  "api_unexpected = api_error 500 ''Internal Server Error'' ''An unexpected error occurred''"

text \<open>\<open>rawPath.replace('/api', '') || '/'\<close>.\<close>

definition apiPathOf :: "string \<Rightarrow> string" where
  "apiPathOf p = (let replaced = replaceFirst ''/api'' [] p in if replaced = [] then ''/'' else replaced)"

text \<open>
  The handler of the data API; \<open>lower\<close> is \<open>toLowerCase\<close>. The \<open>catch\<close> block answers
  wherever the \<open>try\<close> block raises: on an event without method or path; in
  \<open>validateCertData\<close>, whose \<open>data.every\<close> is not a function when the data are not an
  array (on an array of records it only writes a warning to the log); and in the
  \<open>/sectors\<close> route. The data are loaded, and the module state is updated, before any of
  the last two. Limits of the engine (the length of a string, the number of arguments
  of a call) are not part of the model.
\<close>

definition api_handler ::
  "(jstring \<Rightarrow> jstring) \<Rightarrow> int \<Rightarrow> data_file \<Rightarrow> api_state \<Rightarrow> http_event \<Rightarrow> response \<times> api_state"
  where
  "api_handler lower now file st event =
     (case (requestContext event, rawPath event) of
        (Some method, Some rawPath') \<Rightarrow>
          (let apiPath = apiPathOf rawPath';
               filters = parseFilters (query event)
           in if method = ''OPTIONS'' then
                (\<lparr>statusCode = 200,
                  headers = api_corsHeaders ++ api_securityHeaders,
                  body = Text [],
                  isBase64Encoded = None\<rparr>, st)
              else if method \<noteq> ''GET'' then
                (api_error 405 ''Method Not Allowed''
                   (''HTTP method '' @ method @ '' is not supported''), st)
              else
                (let (data, st') = loadCertData now file st
                 in if lengthIsZero data then
                      (api_error 500 ''Data Unavailable'' ''CERT data could not be loaded'', st')
                    else
                      (case data of
                         Records certs \<Rightarrow>
                           if apiPath = ''/'' \<or> apiPath = ''/certs'' then
                             (let filteredCerts = filterCerts lower certs filters
                              in (api_ok apiPath
                                    (CertsJson filteredCerts (length filteredCerts)
                                       (suppliedFilters filters)),
                                  st'))
                           else if apiPath = ''/stats'' then
                             (api_ok apiPath (StatsJson certs), st')
                           else if apiPath = ''/countries'' then
                             (api_ok apiPath (CountriesJson (countriesView certs)), st')
                           else if apiPath = ''/sectors'' then
                             (if sectorsThrows certs then (api_unexpected, st')
                              else (api_ok apiPath (SectorsJson certs), st'))
                           else if apiPath = ''/health'' then
                             (api_ok apiPath (HealthJson (length certs)), st')
                           else
                             (api_error 404 ''Not Found''
                                (''API endpoint '' @ apiPath @ '' not found''), st')
                       | _ \<Rightarrow> (api_unexpected, st'))))
      | _ \<Rightarrow> (api_unexpected, st))"

section \<open>The static resolver\<close>

text \<open>
  An entry of the module's \<open>cache\<close> map, and the map itself, keyed by file path. The
  file system is a partial function: \<open>files p\<close> is the buffer that \<open>readFileSync\<close>
  returns for the path \<open>p\<close> under the asset root, \<open>None\<close> when it throws.
\<close>

record cache_entry =
  content :: string
  timestamp :: int

type_synonym file_cache = "string \<rightharpoonup> cache_entry"

type_synonym file_system = "string \<rightharpoonup> string"

definition handler_CACHE_TTL :: int where
  "handler_CACHE_TTL = 300000"

definition mimeTypes :: "(string \<times> string) list" where
  "mimeTypes =
     [(''.html'', ''text/html''),
      (''.css'', ''text/css''),
      (''.js'', ''application/javascript''),
      (''.json'', ''application/json''),
      (''.png'', ''image/png''),
      (''.jpg'', ''image/jpeg''),
      (''.jpeg'', ''image/jpeg''),
      (''.gif'', ''image/gif''),
      (''.svg'', ''image/svg+xml''),
      (''.ico'', ''image/x-icon''),
      (''.woff'', ''font/woff''),
      (''.woff2'', ''font/woff2''),
      (''.ttf'', ''font/ttf''),
      (''.eot'', ''application/vnd.ms-fontobject'')]"

definition contentSecurityPolicy :: string where
  "contentSecurityPolicy =
     ''default-src 'self'; script-src 'self' 'unsafe-inline' https://fonts.googleapis.com; '' @
     ''style-src 'self' 'unsafe-inline' https://fonts.googleapis.com; '' @
     ''font-src 'self' https://fonts.gstatic.com; img-src 'self' data: https:; '' @
     ''connect-src 'self'; frame-ancestors 'none';''"

definition handler_securityHeaders :: "string \<rightharpoonup> string" where
  "handler_securityHeaders = map_of
     [(''Strict-Transport-Security'', ''max-age=31536000; includeSubDomains''),
      (''X-Content-Type-Options'', ''nosniff''),
      (''X-Frame-Options'', ''DENY''),
      (''X-XSS-Protection'', ''1; mode=block''),
      (''Referrer-Policy'', ''strict-origin-when-cross-origin''),
      (''Content-Security-Policy'', contentSecurityPolicy)]"

definition handler_corsHeaders :: "string \<rightharpoonup> string" where
  "handler_corsHeaders = map_of
     [(''Access-Control-Allow-Origin'', ''https://cert.danieloo.com''),
      (''Access-Control-Allow-Headers'', ''Content-Type, Authorization''),
      (''Access-Control-Allow-Methods'', ''GET, POST, OPTIONS''),
      (''Access-Control-Max-Age'', ''86400'')]"

definition getContentType :: "string \<Rightarrow> string" where
  "getContentType filePath =
     (let ext = toLowerCase (extname filePath)
      in case map_of mimeTypes ext of
           Some t \<Rightarrow> t
         | None \<Rightarrow> ''application/octet-stream'')"

text \<open>
  \<open>getCachedFile\<close>, with the clock reading and the file system as arguments; it returns
  the buffer (\<open>None\<close> is \<open>null\<close>) and the cache it leaves behind.
\<close>

definition readThrough :: "int \<Rightarrow> file_system \<Rightarrow> file_cache \<Rightarrow> string \<Rightarrow> string option \<times> file_cache" where
  "readThrough now files cache filePath =
     (case files filePath of
        Some buf \<Rightarrow> (Some buf, cache(filePath \<mapsto> \<lparr>content = buf, timestamp = now\<rparr>))
      | None \<Rightarrow> (None, cache))"

definition getCachedFile :: "int \<Rightarrow> file_system \<Rightarrow> file_cache \<Rightarrow> string \<Rightarrow> string option \<times> file_cache" where
  "getCachedFile now files cache filePath =
     (case cache filePath of
        Some cached \<Rightarrow>
          (if now - timestamp cached < handler_CACHE_TTL then (Some (content cached), cache)
           else readThrough now files cache filePath)
      | None \<Rightarrow> readThrough now files cache filePath)"

text \<open>The path of the file that a requested path stands for.\<close>

definition resolvePath :: "string \<Rightarrow> string" where
  "resolvePath requestedPath =
     (let filePath = (if requestedPath = ''/'' then ''/index.html'' else requestedPath);
          filePath = (if startsWith filePath ''/'' then drop 1 filePath else filePath)
      in path_join ''dist'' filePath)"

definition isText :: "string \<Rightarrow> bool" where
  "isText contentType =
     (startsWith contentType ''text/'' \<or>
      str_includes contentType ''javascript'' \<or>
      str_includes contentType ''json'')"

definition cacheControlFor :: "string \<Rightarrow> string" where
  "cacheControlFor contentType =
     (if contentType = ''text/html'' then ''no-cache, no-store, must-revalidate''
      else if contentType = ''application/json'' then ''public, max-age=3600''
      else ''public, max-age=31536000, immutable'')"

text \<open>
  \<open>handleStaticFile\<close>. The clock is read once in each call of \<open>getCachedFile\<close>: \<open>now\<close>
  is the reading of the first call, \<open>now'\<close> that of the second, which is made only when
  the first call returned \<open>null\<close>. A buffer, also an empty one, is truthy.
\<close>

definition handleStaticFile ::
  "int \<Rightarrow> int \<Rightarrow> file_system \<Rightarrow> file_cache \<Rightarrow> string \<Rightarrow> response \<times> file_cache" where
  "handleStaticFile now now' files cache requestedPath =
     (let filePath = resolvePath requestedPath;
          (content, cache) = getCachedFile now files cache filePath
      in case content of
           None \<Rightarrow>
             (let (indexContent, cache) = getCachedFile now' files cache ''dist/index.html''
              in case indexContent of
                   Some buf \<Rightarrow>
                     (\<lparr>statusCode = 200,
                       headers =
                         [''Content-Type'' \<mapsto> ''text/html''] ++ handler_securityHeaders ++
                         [''Cache-Control'' \<mapsto> ''no-cache, no-store, must-revalidate''],
                       body = Text (bufferToString buf),
                       isBase64Encoded = None\<rparr>, cache)
                 | None \<Rightarrow>
                     (\<lparr>statusCode = 404,
                       headers = [''Content-Type'' \<mapsto> ''text/html''] ++ handler_securityHeaders,
                       body =
                         Text ''<h1>404 - Not Found</h1><p>The requested resource was not found.</p>'',
                       isBase64Encoded = None\<rparr>, cache))
         | Some buf \<Rightarrow>
             (let contentType = getContentType filePath;
                  cacheControl = cacheControlFor contentType
              in (\<lparr>statusCode = 200,
                   headers =
                     [''Content-Type'' \<mapsto> contentType, ''Cache-Control'' \<mapsto> cacheControl] ++
                     handler_securityHeaders,
                   body =
                     Text (if isText contentType then bufferToString buf else bufferToBase64 buf),
                   isBase64Encoded = Some (\<not> isText contentType)\<rparr>, cache)))"

text \<open>
  The handler of the static site. Its \<open>catch\<close> block answers an event without a method;
  the CORS headers are a constant of the \<open>try\<close> block.
\<close>

definition static_handler ::
  "int \<Rightarrow> int \<Rightarrow> file_system \<Rightarrow> file_cache \<Rightarrow> http_event \<Rightarrow> response \<times> file_cache" where
  "static_handler now now' files cache event =
     (case requestContext event of
        Some method \<Rightarrow>
          (let path = (case rawPath event of
                         None \<Rightarrow> ''/''
                       | Some p \<Rightarrow> if p = [] then ''/'' else p)
           in if method = ''OPTIONS'' then
                (\<lparr>statusCode = 200,
                  headers = handler_corsHeaders ++ handler_securityHeaders,
                  body = Text [],
                  isBase64Encoded = None\<rparr>, cache)
              else if method = ''GET'' then
                (let (response, cache) = handleStaticFile now now' files cache path
                 in (response\<lparr>headers := headers response ++ handler_corsHeaders\<rparr>, cache))
              else
                (\<lparr>statusCode = 405,
                  headers =
                    [''Content-Type'' \<mapsto> ''application/json''] ++ handler_corsHeaders ++
                    handler_securityHeaders,
                  body =
                    ErrorJson ''Method Not Allowed''
                      (Some (''HTTP method '' @ method @ '' is not supported'')),
                  isBase64Encoded = None\<rparr>, cache))
      | None \<Rightarrow>
          (\<lparr>statusCode = 500,
            headers = [''Content-Type'' \<mapsto> ''application/json''] ++ handler_securityHeaders,
            body = ErrorJson ''Internal Server Error'' (Some ''An unexpected error occurred''),
            isBase64Encoded = None\<rparr>, cache))"

section \<open>The health check\<close>




section \<open>Sample data\<close>

definition canada :: cert where
  "canada =
     \<lparr>cert.country = js ''Canada'', name = js ''CCCS'',
      fullName = js ''Canadian Centre for Cyber Security'',
      website = js ''https://www.cyber.gc.ca'', emergencyContact = js ''+1-833-292-3788'',
      email = js ''contact@cyber.gc.ca'', established = 2018,
      description = js ''Unified source of expert advice on cyber security'',
      cert.sector = js ''Government'', verified = True, lastUpdated = js ''2024-01-15'',
      pgpKey = Some \<lparr>available = False, keyId = None, fingerprint = None\<rparr>\<rparr>"

definition japan :: cert where
  "japan =
     \<lparr>cert.country = js ''Japan'', name = js ''JPCERT/CC'',
      fullName = js ''Japan Computer Emergency Response Team Coordination Center'',
      website = js ''https://www.jpcert.or.jp'', emergencyContact = js ''+81-3-6271-8901'',
      email = js ''info@jpcert.or.jp'', established = 1996,
      description = js ''Coordinates incident response with network providers'',
      cert.sector = js ''National'', verified = True, lastUpdated = js ''2024-02-01'',
      pgpKey = Some \<lparr>available = True, keyId = Some (js ''0x69ECE048''), fingerprint = None\<rparr>\<rparr>"

text \<open>A record whose country is \<open>M\<close>, U+00E9, \<open>xico\<close>, and the same name in capitals.\<close>

definition mexico :: cert where
  "mexico =
     \<lparr>cert.country = [77, 233, 120, 105, 99, 111], name = js ''CERT-MX'',
      fullName = js ''Centro Nacional de Respuesta a Incidentes Ciberneticos'',
      website = js ''https://www.gob.mx'', emergencyContact = js ''+52-55-1103-6000'',
      email = js ''cert-mx@sspc.gob.mx'', established = 2010,
      description = js ''National incident response centre'',
      cert.sector = js ''Government'', verified = True, lastUpdated = js ''2024-03-01'',
      pgpKey = None\<rparr>"

definition MEXICO :: jstring where
  "MEXICO = [77, 201, 88, 73, 67, 79]"

section \<open>The filter semantics in the words of the specification\<close>

text \<open>
  Containment and equality of strings that ignore case, which is to say after
  \<open>toLowerCase\<close>, and the acceptance of one record by a filter object.
  \<open>claimed_accepts\<close> reads ``supplied'' as ``present in the request''; \<open>spec_accepts\<close>
  reads it, for the sector and the country, as ``present and not empty''.
\<close>

definition containsCI :: "(jstring \<Rightarrow> jstring) \<Rightarrow> jstring \<Rightarrow> jstring \<Rightarrow> bool" where
  "containsCI lower s t = str_includes (lower s) (lower t)"

definition equalsCI :: "(jstring \<Rightarrow> jstring) \<Rightarrow> jstring \<Rightarrow> jstring \<Rightarrow> bool" where
  "equalsCI lower s t = (lower s = lower t)"

definition searchHit :: "(jstring \<Rightarrow> jstring) \<Rightarrow> jstring \<Rightarrow> cert \<Rightarrow> bool" where
  "searchHit lower t c =
     (containsCI lower (cert.country c) t \<or> containsCI lower (name c) t \<or>
      containsCI lower (fullName c) t \<or> containsCI lower (cert.sector c) t \<or>
      containsCI lower (description c) t)"

definition pgpAvailable :: "cert \<Rightarrow> bool" where
  "pgpAvailable c = (\<exists>k. pgpKey c = Some k \<and> available k = True)"

definition claimed_accepts :: "(jstring \<Rightarrow> jstring) \<Rightarrow> filters \<Rightarrow> cert \<Rightarrow> bool" where
  "claimed_accepts lower f c =
     ((case search f of None \<Rightarrow> True | Some t \<Rightarrow> searchHit lower t c) \<and>
      (case filters.sector f of
         None \<Rightarrow> True
       | Some v \<Rightarrow> v = js ''all'' \<or> equalsCI lower (cert.sector c) v) \<and>
      (case filters.country f of
         None \<Rightarrow> True
       | Some v \<Rightarrow> equalsCI lower (cert.country c) v) \<and>
      (pgp f = Some (js ''true'') \<longrightarrow> pgpAvailable c))"

definition spec_accepts :: "(jstring \<Rightarrow> jstring) \<Rightarrow> filters \<Rightarrow> cert \<Rightarrow> bool" where
  "spec_accepts lower f c =
     ((case search f of None \<Rightarrow> True | Some t \<Rightarrow> searchHit lower t c) \<and>
      (case filters.sector f of
         None \<Rightarrow> True
       | Some v \<Rightarrow> v = [] \<or> v = js ''all'' \<or> equalsCI lower (cert.sector c) v) \<and>
      (case filters.country f of
         None \<Rightarrow> True
       | Some v \<Rightarrow> v = [] \<or> equalsCI lower (cert.country c) v) \<and>
      (pgp f = Some (js ''true'') \<longrightarrow> pgpAvailable c))"

section \<open>Sample requests\<close>

definition onlySector :: "jstring \<Rightarrow> filters" where
  "onlySector v =
     \<lparr>search = None, filters.sector = Some v, filters.country = None, pgp = None\<rparr>"

definition allFour :: filters where
  "allFour =
     \<lparr>search = Some (js ''JP''), filters.sector = Some (js ''national''),
      filters.country = Some (js ''JAPAN''), pgp = Some (js ''true'')\<rparr>"

definition getRequest :: "string \<Rightarrow> (jstring \<times> jstring) list \<Rightarrow> http_event" where
  "getRequest p q = \<lparr>requestContext = Some ''GET'', rawPath = Some p, query = q\<rparr>"

definition siteFiles :: file_system where
  "siteFiles =
     [''dist/index.html'' \<mapsto> ''<html>CERTopedia</html>'',
      ''dist/assets/css/styles.css'' \<mapsto> ''body{}'',
      ''dist/assets/logo.png'' \<mapsto> ''Man'']"

section \<open>Basic facts\<close>

lemma str_includes_Nil [simp]: "str_includes s []"
  by (cases s) simp_all

lemma pgpMatch_iff: "pgpMatch c \<longleftrightarrow> pgpAvailable c"
  by (auto simp: pgpMatch_def pgpAvailable_def split: option.splits)

lemma searchMatch_iff: "searchMatch lower (lower t) c \<longleftrightarrow> searchHit lower t c"
  by (simp add: searchMatch_def searchHit_def containsCI_def)

lemma searchHit_Nil: "lower [] = [] \<Longrightarrow> searchHit lower [] c"
  by (simp add: searchHit_def containsCI_def)

text \<open>The constants that an evaluation of the examples unfolds.\<close>

lemmas string_eval =
  js_def latin1LowerCase_def containsCI_def equalsCI_def searchHit_def pgpAvailable_def

text \<open>The pipeline is one pass of \<open>filter\<close> with the conjunction of the stage predicates.\<close>

lemma filterCerts_filter:
  assumes "lower [] = []"
  shows "filterCerts lower certs f = filter (spec_accepts lower f) certs"
proof -
  obtain s1 s2 s3 s4 where
    f: "f = \<lparr>search = s1, filters.sector = s2, filters.country = s3, pgp = s4\<rparr>"
    by (cases f) auto
  have e: "searchHit lower [] c" for c
    using assms by (rule searchHit_Nil)
  show ?thesis
    unfolding f
    by (cases s1; cases s2; cases s3)
       (auto simp: filterCerts_def spec_accepts_def Let_def searchMatch_iff pgpMatch_iff
          equalsCI_def e intro!: filter_cong)
qed

lemma filterCerts_subseq: "subseq (filterCerts lower certs f) certs"
  by (simp add: filterCerts_def Let_def)

lemma filterCerts_pgp:
  "filterCerts lower certs f =
     (if pgp f = Some (js ''true'')
      then filter pgpMatch (filterCerts lower certs (f\<lparr>pgp := None\<rparr>))
      else filterCerts lower certs (f\<lparr>pgp := None\<rparr>))"
  by (simp add: filterCerts_def Let_def)

lemma sample_fields:
  "cert.sector canada = js ''Government''" "cert.sector japan = js ''National''"
  "cert.country canada = js ''Canada''" "cert.country japan = js ''Japan''"
  "name japan = js ''JPCERT/CC''"
  "pgpKey canada = Some \<lparr>available = False, keyId = None, fingerprint = None\<rparr>"
  "pgpKey japan = Some \<lparr>available = True, keyId = Some (js ''0x69ECE048''), fingerprint = None\<rparr>"
  by (simp_all add: canada_def japan_def)

lemma latin1LowerCase_Nil: "latin1LowerCase [] = []"
  by (simp add: latin1LowerCase_def)

lemma canada_japan_government:
  "filterCerts latin1LowerCase [canada, japan] (onlySector (js ''Government'')) = [canada]"
proof -
  have a: "truthy (Some (js ''Government''))" "js ''Government'' \<noteq> js ''all''"
    by (simp_all add: js_def)
  have b: "latin1LowerCase (js ''National'') \<noteq> latin1LowerCase (js ''Government'')"
    by (simp add: js_def latin1LowerCase_def)
  show ?thesis
    using a b by (simp add: filterCerts_def onlySector_def Let_def sample_fields)
qed

lemma loadCertData_initial:
  "loadCertData now (Parsed d) api_initial = (d, \<lparr>certData = Some d, certDataTimestamp = now\<rparr>)"
  by (simp add: loadCertData_def reloadCertData_def api_initial_def)

lemma filterCerts_heap_result:
  assumes "a < length h"
  shows "\<exists>r h'. filterCerts_heap lower h a f = (r, h') \<and> length h \<le> r \<and> r < length h' \<and>
           take (length h) h' = h \<and> h' ! r = filterCerts lower (h ! a) f"
  using assms
  by (auto simp: filterCerts_heap_def filterCerts_def alloc_def Let_def nth_append)

lemma getCachedFile_fresh:
  "cache p = Some e \<Longrightarrow> now - timestamp e < handler_CACHE_TTL \<Longrightarrow>
   getCachedFile now files cache p = (Some (content e), cache)"
  by (simp add: getCachedFile_def)

lemma getCachedFile_miss:
  "cache p = None \<or> (cache p = Some e \<and> handler_CACHE_TTL \<le> now - timestamp e) \<Longrightarrow>
   getCachedFile now files cache p =
     (case files p of
        Some buf \<Rightarrow> (Some buf, cache(p \<mapsto> \<lparr>content = buf, timestamp = now\<rparr>))
      | None \<Rightarrow> (None, cache))"
  by (auto simp: getCachedFile_def readThrough_def split: option.splits)

lemma loadCertData_fresh:
  "certData st = Some d \<Longrightarrow> now - certDataTimestamp st < api_CACHE_TTL \<Longrightarrow>
   loadCertData now dfile st = (d, st)"
  by (simp add: loadCertData_def)

lemma loadCertData_miss:
  "certData st = None \<or> api_CACHE_TTL \<le> now - certDataTimestamp st \<Longrightarrow>
   loadCertData now dfile st =
     (case dfile of
        Parsed d \<Rightarrow> (d, \<lparr>certData = Some d, certDataTimestamp = now\<rparr>)
      | Missing \<Rightarrow> (Records [], st)
      | Unparsable \<Rightarrow> (Records [], st))"
  by (auto simp: loadCertData_def reloadCertData_def split: option.splits data_file.splits)

subsection \<open>Facts about the data API\<close>

lemma uniq_fold:
  "set (fold (\<lambda>x acc. if x \<in> set acc then acc else acc @ [x]) xs acc) = set xs \<union> set acc \<and>
   (distinct acc \<longrightarrow> distinct (fold (\<lambda>x acc. if x \<in> set acc then acc else acc @ [x]) xs acc))"
  by (induction xs arbitrary: acc) auto

lemma set_uniq [simp]: "set (uniq xs) = set xs"
  using uniq_fold [of xs "[]"] by (simp add: uniq_def)

lemma distinct_uniq [simp]: "distinct (uniq xs)"
  using uniq_fold [of xs "[]"] by (simp add: uniq_def)

lemma api_handler_GET:
  assumes "requestContext ev = Some ''GET''" "rawPath ev = Some rp"
    "loadCertData now dfile st = (Records certs, st')" "certs \<noteq> []"
  shows "api_handler lower now dfile st ev =
     (if apiPathOf rp = ''/'' \<or> apiPathOf rp = ''/certs'' then
        (let filteredCerts = filterCerts lower certs (parseFilters (query ev))
         in (api_ok (apiPathOf rp)
               (CertsJson filteredCerts (length filteredCerts)
                  (suppliedFilters (parseFilters (query ev)))), st'))
      else if apiPathOf rp = ''/stats'' then (api_ok (apiPathOf rp) (StatsJson certs), st')
      else if apiPathOf rp = ''/countries'' then
        (api_ok (apiPathOf rp) (CountriesJson (countriesView certs)), st')
      else if apiPathOf rp = ''/sectors'' then
        (if sectorsThrows certs then (api_unexpected, st')
         else (api_ok (apiPathOf rp) (SectorsJson certs), st'))
      else if apiPathOf rp = ''/health'' then (api_ok (apiPathOf rp) (HealthJson (length certs)), st')
      else (api_error 404 ''Not Found'' (''API endpoint '' @ apiPathOf rp @ '' not found''), st'))"
  by (simp add: api_handler_def Let_def lengthIsZero_def assms)






subsection \<open>Facts about the decoding of buffers\<close>

lemma bufferToString_wellFormed:
  "wellFormedUtf8 buf \<Longrightarrow> bufferToString buf = buf"
proof (induction buf rule: wellFormedUtf8.induct)
  case 1
  show ?case by simp
next
  case (2 b bs)
  show ?case
  proof (cases "byteIn 0x00 0x7F b")
    case True
    with 2 show ?thesis by simp
  next
    case n1: False
    show ?thesis
    proof (cases "byteIn 0xC2 0xDF b")
      case True
      with n1 2 show ?thesis by (cases bs) simp_all
    next
      case n2: False
      show ?thesis
      proof (cases "byteIn 0xE0 0xEF b")
        case True
        with n1 n2 2 show ?thesis
          by (cases bs; cases "tl bs") (simp_all split: if_splits)
      next
        case n3: False
        show ?thesis
        proof (cases "byteIn 0xF0 0xF4 b")
          case True
          with n1 n2 n3 2 show ?thesis
            by (cases bs; cases "tl bs"; cases "tl (tl bs)") (simp_all split: if_splits)
        next
          case False
          with n1 n2 n3 2 show ?thesis by simp
        qed
      qed
    qed
  qed
qed

lemma wellFormedUtf8_ascii:
  "\<forall>c \<in> set buf. byteIn 0x00 0x7F c \<Longrightarrow> wellFormedUtf8 buf"
  by (induction buf) simp_all

lemma wellFormedUtf8_replacement [simp]:
  "wellFormedUtf8 (replacementCharacter @ bs) = wellFormedUtf8 bs"
  by (simp add: replacementCharacter_def byteIn_def)

lemma wellFormedUtf8_replacementCharacter [simp]:
  "wellFormedUtf8 replacementCharacter"
  using wellFormedUtf8_replacement [of "[]"] by simp

lemma wellFormedUtf8_bufferToString:
  "wellFormedUtf8 (bufferToString buf)"
proof (induction "length buf" arbitrary: buf rule: less_induct)
  case less
  show ?case
  proof (cases buf)
    case Nil
    then show ?thesis by simp
  next
    case (Cons b bs)
    have ih: "wellFormedUtf8 (bufferToString xs)" if "length xs \<le> length bs" for xs
      using less [of xs] that Cons by simp
    have ih0: "wellFormedUtf8 (bufferToString bs)" by (rule ih) simp
    show ?thesis
    proof (cases "byteIn 0x00 0x7F b")
      case True
      with Cons ih0 show ?thesis by simp
    next
      case n1: False
      show ?thesis
      proof (cases "byteIn 0xC2 0xDF b")
        case True
        show ?thesis
        proof (cases bs)
          case Nil
          with Cons n1 True show ?thesis by simp
        next
          case c: (Cons c cs)
          have "wellFormedUtf8 (bufferToString cs)" by (rule ih) (simp add: c)
          with Cons n1 True c ih0 show ?thesis by simp
        qed
      next
        case n2: False
        show ?thesis
        proof (cases "byteIn 0xE0 0xEF b")
          case True
          show ?thesis
          proof (cases bs)
            case Nil
            with Cons n1 n2 True show ?thesis by simp
          next
            case c: (Cons c cs)
            have ihc: "wellFormedUtf8 (bufferToString cs)" by (rule ih) (simp add: c)
            show ?thesis
            proof (cases cs)
              case Nil
              with Cons n1 n2 True c ih0 show ?thesis by simp
            next
              case d: (Cons d ds)
              have "wellFormedUtf8 (bufferToString ds)" by (rule ih) (simp add: c d)
              with Cons n1 n2 True c d ih0 ihc show ?thesis by simp
            qed
          qed
        next
          case n3: False
          show ?thesis
          proof (cases "byteIn 0xF0 0xF4 b")
            case True
            show ?thesis
            proof (cases bs)
              case Nil
              with Cons n1 n2 n3 True show ?thesis by simp
            next
              case c: (Cons c cs)
              have ihc: "wellFormedUtf8 (bufferToString cs)" by (rule ih) (simp add: c)
              show ?thesis
              proof (cases cs)
                case Nil
                with Cons n1 n2 n3 True c ih0 show ?thesis by simp
              next
                case d: (Cons d ds)
                have ihd: "wellFormedUtf8 (bufferToString ds)" by (rule ih) (simp add: c d)
                show ?thesis
                proof (cases ds)
                  case Nil
                  with Cons n1 n2 n3 True c d ih0 ihc show ?thesis by simp
                next
                  case e: (Cons e es)
                  have "wellFormedUtf8 (bufferToString es)" by (rule ih) (simp add: c d e)
                  with Cons n1 n2 n3 True c d e ih0 ihc ihd show ?thesis by simp
                qed
              qed
            qed
          next
            case False
            with Cons n1 n2 n3 ih0 show ?thesis by simp
          qed
        qed
      qed
    qed
  qed
qed

lemma bufferToString_eq_iff:
  "bufferToString buf = buf \<longleftrightarrow> wellFormedUtf8 buf"
  using bufferToString_wellFormed [of buf] wellFormedUtf8_bufferToString [of buf] by auto

subsection \<open>Facts about the static resolver\<close>

lemma getCachedFile_None:
  "fst (getCachedFile now files cache p) = None \<Longrightarrow>
   getCachedFile now files cache p = (None, cache) \<and> files p = None"
  by (auto simp: getCachedFile_def readThrough_def split: option.splits if_splits)

lemma handleStaticFile_found:
  "getCachedFile now files cache (resolvePath rq) = (Some buf, cache') \<Longrightarrow>
   handleStaticFile now now' files cache rq =
     (\<lparr>statusCode = 200,
       headers =
         [''Content-Type'' \<mapsto> getContentType (resolvePath rq),
          ''Cache-Control'' \<mapsto> cacheControlFor (getContentType (resolvePath rq))] ++
         handler_securityHeaders,
       body =
         Text (if isText (getContentType (resolvePath rq)) then bufferToString buf
               else bufferToBase64 buf),
       isBase64Encoded = Some (\<not> isText (getContentType (resolvePath rq)))\<rparr>, cache')"
  by (simp add: handleStaticFile_def Let_def)

lemma handleStaticFile_fallback:
  "fst (getCachedFile now files cache (resolvePath rq)) = None \<Longrightarrow>
   getCachedFile now' files cache ''dist/index.html'' = (Some idx, cache') \<Longrightarrow>
   handleStaticFile now now' files cache rq =
     (\<lparr>statusCode = 200,
       headers =
         [''Content-Type'' \<mapsto> ''text/html''] ++ handler_securityHeaders ++
         [''Cache-Control'' \<mapsto> ''no-cache, no-store, must-revalidate''],
       body = Text (bufferToString idx),
       isBase64Encoded = None\<rparr>, cache')"
  by (drule getCachedFile_None) (simp add: handleStaticFile_def Let_def)

lemma handleStaticFile_notFound:
  "fst (getCachedFile now files cache (resolvePath rq)) = None \<Longrightarrow>
   fst (getCachedFile now' files cache ''dist/index.html'') = None \<Longrightarrow>
   handleStaticFile now now' files cache rq =
     (\<lparr>statusCode = 404,
       headers = [''Content-Type'' \<mapsto> ''text/html''] ++ handler_securityHeaders,
       body = Text ''<h1>404 - Not Found</h1><p>The requested resource was not found.</p>'',
       isBase64Encoded = None\<rparr>, cache)"
  by (drule getCachedFile_None, drule getCachedFile_None) (simp add: handleStaticFile_def Let_def)

lemma static_handler_GET:
  "rq \<noteq> [] \<Longrightarrow>
   static_handler now now' files cache (getRequest rq q) =
     (case handleStaticFile now now' files cache rq of
        (response, cache') \<Rightarrow> (response\<lparr>headers := headers response ++ handler_corsHeaders\<rparr>, cache'))"
  by (simp add: static_handler_def getRequest_def Let_def)

lemma cors_keys:
  "handler_corsHeaders ''Cache-Control'' = None" "handler_corsHeaders ''Content-Type'' = None"
  by (simp_all add: handler_corsHeaders_def)

lemma security_keys:
  "handler_securityHeaders ''Cache-Control'' = None" "handler_securityHeaders ''Content-Type'' = None"
  by (simp_all add: handler_securityHeaders_def)

lemma handleStaticFile_status:
  "statusCode (fst (handleStaticFile now now' files cache rq)) \<in> {200, 404}"
proof (cases "getCachedFile now files cache (resolvePath rq)")
  case (Pair res cache')
  show ?thesis
  proof (cases res)
    case (Some buf)
    with Pair show ?thesis by (simp add: handleStaticFile_found)
  next
    case None
    with Pair have miss: "fst (getCachedFile now files cache (resolvePath rq)) = None" by simp
    show ?thesis
    proof (cases "getCachedFile now' files cache ''dist/index.html''")
      case (Pair idx cache'')
      then show ?thesis
        using handleStaticFile_fallback [OF miss, of now' _ cache'']
          handleStaticFile_notFound [OF miss, of now']
        by (cases idx) simp_all
    qed
  qed
qed

lemma static_handler_fault_free:
  assumes "requestContext ev = Some ''GET''"
  shows "statusCode (fst (static_handler now now' files cache ev)) \<in> {200, 404}"
proof -
  obtain p where
    "static_handler now now' files cache ev =
       (case handleStaticFile now now' files cache p of
          (response, cache') \<Rightarrow> (response\<lparr>headers := headers response ++ handler_corsHeaders\<rparr>, cache'))"
    using assms by (simp add: static_handler_def Let_def)
  then show ?thesis
    using handleStaticFile_status [of now now' files cache p]
    by (simp add: split_beta)
qed

lemma mimeTypes_lookup:
  "(e, t) \<in> set mimeTypes \<Longrightarrow> map_of mimeTypes e = Some t"
  by (rule map_of_is_SomeI) (simp_all add: mimeTypes_def)

subsection \<open>Facts about headers\<close>












section \<open>Filter composition\<close>

text \<open>
  C1, as amended. The output of the filter pipeline is the input list filtered by the
  conjunction of the constraints of the filters supplied, and a record is in the output
  iff it is in the input and meets each of them: when a search term is supplied, one of
  country, name, fullName, sector and description contains it, case-insensitively; when a
  sector is supplied that is not empty and not the literal \<open>all\<close>, the record's sector
  equals it, case-insensitively; when a country is supplied that is not empty, the
  record's country equals it, case-insensitively; when the \<open>pgp\<close> parameter is \<open>true\<close>,
  the record's \<open>pgpKey.available\<close> is true. A filter that is omitted imposes no
  constraint. Two strings are compared case-insensitively by comparing what
  \<open>toLowerCase\<close> makes of them; the statement holds for every function \<open>lower\<close> in the
  place of \<open>toLowerCase\<close> that maps the empty string to itself, as \<open>toLowerCase\<close> does.
  On the records for Canada (sector Government) and Japan (sector National), the sector
  filter \<open>Government\<close> returns exactly the Canada record, and the request
  \<open>GET /certs?sector=Government\<close> is answered with that record and \<open>total = 1\<close>, for
  every \<open>lower\<close> that tells \<open>National\<close> from \<open>Government\<close>.
\<close>

theorem filter_composition:
  "(lower [] = [] \<longrightarrow>
      (c \<in> set (filterCerts lower certs f) \<longleftrightarrow> c \<in> set certs \<and> spec_accepts lower f c) \<and>
      filterCerts lower certs f = filter (spec_accepts lower f) certs) \<and>
   (lower (js ''National'') \<noteq> lower (js ''Government'') \<longrightarrow>
      filterCerts lower [canada, japan] (onlySector (js ''Government'')) = [canada] \<and>
      fst (api_handler lower now (Parsed (Records [canada, japan])) api_initial
             (getRequest ''/certs'' [(js ''sector'', js ''Government'')]))
        = api_ok ''/certs'' (CertsJson [canada] 1 [(''sector'', js ''Government'')]))"
proof -
  let ?f = "onlySector (js ''Government'')"
  have q: "parseFilters [(js ''sector'', js ''Government'')] = ?f"
    by (simp add: parseFilters_def onlySector_def js_def)
  have s: "suppliedFilters ?f = [(''sector'', js ''Government'')]"
    by (simp add: suppliedFilters_def onlySector_def)
  have p: "apiPathOf ''/certs'' = ''/certs''"
    by (simp add: apiPathOf_def)
  have t: "truthy (Some (js ''Government''))" "js ''Government'' \<noteq> js ''all''"
    by (simp_all add: js_def)
  have ex: "filterCerts lower [canada, japan] ?f = [canada]"
    if "lower (js ''National'') \<noteq> lower (js ''Government'')"
    using that t by (simp add: filterCerts_def onlySector_def Let_def sample_fields)
  have h: "fst (api_handler lower now (Parsed (Records [canada, japan])) api_initial
             (getRequest ''/certs'' [(js ''sector'', js ''Government'')]))
        = api_ok ''/certs'' (CertsJson [canada] 1 [(''sector'', js ''Government'')])"
    if "lower (js ''National'') \<noteq> lower (js ''Government'')"
  proof -
    have "api_handler lower now (Parsed (Records [canada, japan])) api_initial
            (getRequest ''/certs'' [(js ''sector'', js ''Government'')]) =
          (api_ok ''/certs'' (CertsJson [canada] 1 [(''sector'', js ''Government'')]),
           \<lparr>certData = Some (Records [canada, japan]), certDataTimestamp = now\<rparr>)"
      by (subst api_handler_GET [where rp = "''/certs''" and certs = "[canada, japan]"])
         (simp_all add: getRequest_def loadCertData_initial p q s ex [OF that] Let_def)
    then show ?thesis by simp
  qed
  from ex h filterCerts_filter [of lower certs f] show ?thesis
    by auto
qed

theorem filter_composition_witness:
  "latin1LowerCase [] = [] \<and>
   latin1LowerCase (js ''National'') \<noteq> latin1LowerCase (js ''Government'') \<and>
   japan \<in> set (filterCerts latin1LowerCase [canada, japan] allFour) \<and>
   canada \<notin> set (filterCerts latin1LowerCase [canada, japan] allFour) \<and>
   spec_accepts latin1LowerCase allFour japan \<and> pgp allFour = Some (js ''true'') \<and>
   pgpAvailable japan \<and>
   filterCerts latin1LowerCase [canada, japan] (onlySector (js ''Government'')) = [canada] \<and>
   filterCerts latin1LowerCase [canada, mexico]
     \<lparr>search = None, filters.sector = None, filters.country = Some MEXICO, pgp = None\<rparr>
     = [mexico]"
proof -
  let ?g = "\<lparr>search = None, filters.sector = None, filters.country = Some MEXICO, pgp = None\<rparr>"
  have m: "spec_accepts latin1LowerCase ?g mexico" "\<not> spec_accepts latin1LowerCase ?g canada"
    by (simp_all add: spec_accepts_def mexico_def MEXICO_def sample_fields equalsCI_def js_def
          latin1LowerCase_def)
  from filter_composition [of latin1LowerCase mexico "[canada, mexico]" ?g 0] m
  have x: "filterCerts latin1LowerCase [canada, mexico] ?g = [mexico]"
    by (simp add: latin1LowerCase_def)
  have n: "latin1LowerCase (js ''National'') \<noteq> latin1LowerCase (js ''Government'')"
    by (simp add: js_def latin1LowerCase_def)
  have a: "spec_accepts latin1LowerCase allFour japan"
    by (simp add: spec_accepts_def allFour_def sample_fields japan_def string_eval)
  have b: "\<not> spec_accepts latin1LowerCase allFour canada"
    by (simp add: spec_accepts_def allFour_def sample_fields string_eval)
  have c: "pgpAvailable japan"
    by (simp add: pgpAvailable_def sample_fields)
  from a b c n x latin1LowerCase_Nil
    filter_composition [of latin1LowerCase japan "[canada, japan]" allFour 0]
    filter_composition [of latin1LowerCase canada "[canada, japan]" allFour 0]
  show ?thesis by (simp add: allFour_def)
qed

text \<open>
  C1 as it is written fails on a sector that is supplied with the empty value, as in
  \<open>GET /certs?sector=\<close>: the code skips the stage and keeps the Canada record, whose
  sector is not the empty string, while the answer lists the sector among the filters of
  the request.
\<close>

theorem empty_sector_counterexample:
  "canada \<in> set (filterCerts latin1LowerCase [canada] (onlySector [])) \<and>
   \<not> claimed_accepts latin1LowerCase (onlySector []) canada \<and>
   fst (api_handler latin1LowerCase 1000 (Parsed (Records [canada])) api_initial
          (getRequest ''/certs'' [(js ''sector'', [])]))
     = api_ok ''/certs'' (CertsJson [canada] 1 [(''sector'', [])])"
proof -
  have q: "parseFilters [(js ''sector'', [])] = onlySector []"
    by (simp add: parseFilters_def onlySector_def js_def)
  have f: "filterCerts latin1LowerCase [canada] (onlySector []) = [canada]"
    by (simp add: filterCerts_def onlySector_def)
  have s: "suppliedFilters (onlySector []) = [(''sector'', [])]"
    by (simp add: suppliedFilters_def onlySector_def)
  have p: "apiPathOf ''/certs'' = ''/certs''"
    by (simp add: apiPathOf_def)
  have "api_handler latin1LowerCase 1000 (Parsed (Records [canada])) api_initial
          (getRequest ''/certs'' [(js ''sector'', [])])
     = (api_ok ''/certs'' (CertsJson [canada] 1 [(''sector'', [])]),
        \<lparr>certData = Some (Records [canada]), certDataTimestamp = 1000\<rparr>)"
    by (subst api_handler_GET [where rp = "''/certs''" and certs = "[canada]"])
       (simp_all add: getRequest_def loadCertData_initial p q s f Let_def)
  then have h: "fst (api_handler latin1LowerCase 1000 (Parsed (Records [canada])) api_initial
          (getRequest ''/certs'' [(js ''sector'', [])]))
     = api_ok ''/certs'' (CertsJson [canada] 1 [(''sector'', [])])"
    by simp
  have c: "\<not> claimed_accepts latin1LowerCase (onlySector []) canada"
    by (simp add: onlySector_def claimed_accepts_def sample_fields string_eval)
  from f h c show ?thesis by simp
qed

section \<open>The two caches\<close>

text \<open>
  C2. The static cache has a TTL of 5 minutes and the dataset cache one of 10 minutes,
  in milliseconds. In each of them, a lookup made while \<open>now - storedAt < TTL\<close> returns
  the stored value and leaves the cache as it is; a lookup with no entry, or with
  \<open>TTL \<le> now - storedAt\<close>, goes to the backing source (the file system, the parsed
  dataset file), and on success stores what it read under the timestamp \<open>now\<close>, while on
  failure it returns nothing (\<open>null\<close>, the empty list) and leaves the cache as it is;
  and a lookup made less than TTL after a lookup that stored a value returns that value,
  whatever the backing source holds by then.
\<close>

theorem ttl_cache:
  "handler_CACHE_TTL = 5 * 60 * 1000 \<and> api_CACHE_TTL = 10 * 60 * 1000 \<and>
   (cache p = Some e \<and> now - timestamp e < handler_CACHE_TTL \<longrightarrow>
      getCachedFile now files cache p = (Some (content e), cache)) \<and>
   ((cache p = None \<or> (cache p = Some e \<and> handler_CACHE_TTL \<le> now - timestamp e)) \<longrightarrow>
      getCachedFile now files cache p =
        (case files p of
           Some buf \<Rightarrow> (Some buf, cache(p \<mapsto> \<lparr>content = buf, timestamp = now\<rparr>))
         | None \<Rightarrow> (None, cache))) \<and>
   ((cache p = None \<or> (cache p = Some e \<and> handler_CACHE_TTL \<le> stored - timestamp e)) \<and>
    files p = Some buf \<and> later - stored < handler_CACHE_TTL \<longrightarrow>
      getCachedFile later files' (snd (getCachedFile stored files cache p)) p =
        (Some buf, snd (getCachedFile stored files cache p))) \<and>
   (certData st = Some d \<and> now - certDataTimestamp st < api_CACHE_TTL \<longrightarrow>
      loadCertData now dfile st = (d, st)) \<and>
   ((certData st = None \<or> api_CACHE_TTL \<le> now - certDataTimestamp st) \<longrightarrow>
      loadCertData now dfile st =
        (case dfile of
           Parsed d' \<Rightarrow> (d', \<lparr>certData = Some d', certDataTimestamp = now\<rparr>)
         | Missing \<Rightarrow> (Records [], st)
         | Unparsable \<Rightarrow> (Records [], st))) \<and>
   ((certData st = None \<or> api_CACHE_TTL \<le> stored - certDataTimestamp st) \<and>
    later - stored < api_CACHE_TTL \<longrightarrow>
      loadCertData later dfile' (snd (loadCertData stored (Parsed d) st)) =
        (d, snd (loadCertData stored (Parsed d) st)))"
proof -
  have a: "getCachedFile later files' (snd (getCachedFile stored files cache p)) p =
        (Some buf, snd (getCachedFile stored files cache p))"
    if "cache p = None \<or> (cache p = Some e \<and> handler_CACHE_TTL \<le> stored - timestamp e)"
       "files p = Some buf" "later - stored < handler_CACHE_TTL"
  proof -
    have "snd (getCachedFile stored files cache p) =
            cache(p \<mapsto> \<lparr>content = buf, timestamp = stored\<rparr>)"
      using that(2) getCachedFile_miss [of cache p e stored files, OF that(1)] by simp
    then show ?thesis
      using that(3) by (simp add: getCachedFile_def)
  qed
  have b: "loadCertData later dfile' (snd (loadCertData stored (Parsed d) st)) =
        (d, snd (loadCertData stored (Parsed d) st))"
    if "certData st = None \<or> api_CACHE_TTL \<le> stored - certDataTimestamp st"
       "later - stored < api_CACHE_TTL"
  proof -
    have "snd (loadCertData stored (Parsed d) st) =
            \<lparr>certData = Some d, certDataTimestamp = stored\<rparr>"
      using loadCertData_miss [of st stored "Parsed d", OF that(1)] by simp
    then show ?thesis
      using that(2) by (simp add: loadCertData_def)
  qed
  have e: "handler_CACHE_TTL = 5 * 60 * 1000" "api_CACHE_TTL = 10 * 60 * 1000"
    by (simp_all add: handler_CACHE_TTL_def api_CACHE_TTL_def)
  from a b e
    getCachedFile_miss [of cache p e now files] loadCertData_miss [of st now dfile]
    getCachedFile_fresh [of cache p e now files] loadCertData_fresh [of st d now dfile]
  show ?thesis by blast
qed

theorem ttl_cache_witness:
  "getCachedFile 299999 Map.empty
     (snd (getCachedFile 0 [''dist/a.css'' \<mapsto> ''body{}''] Map.empty ''dist/a.css''))
     ''dist/a.css''
     = (Some ''body{}'', [''dist/a.css'' \<mapsto> \<lparr>content = ''body{}'', timestamp = 0\<rparr>]) \<and>
   getCachedFile 300000 [''dist/a.css'' \<mapsto> ''p{}'']
     [''dist/a.css'' \<mapsto> \<lparr>content = ''body{}'', timestamp = 0\<rparr>] ''dist/a.css''
     = (Some ''p{}'', [''dist/a.css'' \<mapsto> \<lparr>content = ''p{}'', timestamp = 300000\<rparr>]) \<and>
   loadCertData 600999 Missing (snd (loadCertData 1000 (Parsed (Records [canada])) api_initial))
     = (Records [canada], \<lparr>certData = Some (Records [canada]), certDataTimestamp = 1000\<rparr>) \<and>
   loadCertData 601000 (Parsed (Records [japan]))
     \<lparr>certData = Some (Records [canada]), certDataTimestamp = 1000\<rparr>
     = (Records [japan], \<lparr>certData = Some (Records [japan]), certDataTimestamp = 601000\<rparr>)"
proof -
  let ?e = "\<lparr>content = ''body{}'', timestamp = 0\<rparr>"
  let ?c = "[''dist/a.css'' \<mapsto> ?e]"
  let ?st = "\<lparr>certData = Some (Records [canada]), certDataTimestamp = 1000\<rparr>"
  have ttl: "handler_CACHE_TTL = 300000" "api_CACHE_TTL = 600000"
    by (simp_all add: handler_CACHE_TTL_def api_CACHE_TTL_def)
  have put: "snd (getCachedFile 0 [''dist/a.css'' \<mapsto> ''body{}''] Map.empty ''dist/a.css'') = ?c"
    by (simp add: getCachedFile_def readThrough_def)
  have load: "snd (loadCertData 1000 (Parsed (Records [canada])) api_initial) = ?st"
    by (simp add: loadCertData_def reloadCertData_def api_initial_def)
  have init: "certData api_initial = None"
    by (simp add: api_initial_def)
  note t1 = ttl_cache [where cache = Map.empty and p = "''dist/a.css''" and stored = 0
      and later = 299999 and files = "[''dist/a.css'' \<mapsto> ''body{}'']" and buf = "''body{}''"
      and files' = Map.empty]
  note t2 = ttl_cache [where cache = ?c and p = "''dist/a.css''" and e = ?e and now = 300000
      and files = "[''dist/a.css'' \<mapsto> ''p{}'']"]
  note t3 = ttl_cache [where st = api_initial and d = "Records [canada]" and dfile' = Missing
      and stored = 1000 and later = 600999]
  note t4 = ttl_cache [where now = 601000 and st = ?st and dfile = "Parsed (Records [japan])"]
  from t1 have g1: "getCachedFile 299999 Map.empty
     (snd (getCachedFile 0 [''dist/a.css'' \<mapsto> ''body{}''] Map.empty ''dist/a.css''))
     ''dist/a.css'' = (Some ''body{}'', ?c)"
    by (simp add: ttl put)
  from t2 have g2: "getCachedFile 300000 [''dist/a.css'' \<mapsto> ''p{}''] ?c ''dist/a.css''
     = (Some ''p{}'', [''dist/a.css'' \<mapsto> \<lparr>content = ''p{}'', timestamp = 300000\<rparr>])"
    by (simp add: ttl)
  from t3 have g3: "loadCertData 600999 Missing
     (snd (loadCertData 1000 (Parsed (Records [canada])) api_initial)) = (Records [canada], ?st)"
    by (simp add: ttl load init)
  from t4 have g4: "loadCertData 601000 (Parsed (Records [japan])) ?st
     = (Records [japan], \<lparr>certData = Some (Records [japan]), certDataTimestamp = 601000\<rparr>)"
    by (simp add: ttl)
  from g1 g2 g3 g4 show ?thesis by blast
qed

section \<open>The pipeline returns a subsequence\<close>

text \<open>
  C9. The output of the filter pipeline is a subsequence of its input: every output
  record is an element of the input, in the same relative order. On the heap, the array
  returned is a new one (its address is none of the heap before the call, so it is not
  the input array), and every array that existed before the call, the input among them,
  holds what it held.
\<close>

theorem filterCerts_subsequence:
  "subseq (filterCerts lower certs f) certs \<and>
   set (filterCerts lower certs f) \<subseteq> set certs \<and>
   (a < length h \<longrightarrow>
      (\<exists>r h'. filterCerts_heap lower h a f = (r, h') \<and>
         r \<noteq> a \<and> length h \<le> r \<and> r < length h' \<and>
         (\<forall>i < length h. h' ! i = h ! i) \<and>
         h' ! r = filterCerts lower (h ! a) f \<and> subseq (h' ! r) (h ! a)))"
proof -
  have s: "subseq (filterCerts lower xs f) xs" for xs
    by (rule filterCerts_subseq)
  have "\<exists>r h'. filterCerts_heap lower h a f = (r, h') \<and>
         r \<noteq> a \<and> length h \<le> r \<and> r < length h' \<and>
         (\<forall>i < length h. h' ! i = h ! i) \<and>
         h' ! r = filterCerts lower (h ! a) f \<and> subseq (h' ! r) (h ! a)" if a: "a < length h"
  proof -
    from filterCerts_heap_result [OF a, of lower f] obtain r h' where
      r: "filterCerts_heap lower h a f = (r, h')" "length h \<le> r" "r < length h'"
         "take (length h) h' = h" "h' ! r = filterCerts lower (h ! a) f"
      by blast
    have "h' ! i = h ! i" if "i < length h" for i
      using that r(4) by (metis nth_take)
    with r a s show ?thesis by auto
  qed
  moreover have "set (filterCerts lower certs f) \<subseteq> set certs"
    by (simp add: filterCerts_def Let_def)
  ultimately show ?thesis
    using s [of certs] by blast
qed

theorem filterCerts_subsequence_witness:
  "(0::nat) < length [[canada, japan]] \<and>
   filterCerts_heap latin1LowerCase [[canada, japan]] 0 (onlySector (js ''Government''))
     = (2, [[canada, japan], [canada, japan], [canada]]) \<and>
   subseq [canada] [canada, japan]"
proof -
  have t: "truthy (Some (js ''Government''))" "js ''Government'' \<noteq> js ''all''"
    by (simp_all add: js_def)
  have b: "latin1LowerCase (js ''National'') \<noteq> latin1LowerCase (js ''Government'')"
    by (simp add: js_def latin1LowerCase_def)
  have e: "filterCerts_heap latin1LowerCase [[canada, japan]] 0 (onlySector (js ''Government''))
      = (2, [[canada, japan], [canada, japan], [canada]])"
    using t b by (simp add: filterCerts_heap_def alloc_def onlySector_def sample_fields)
  from filterCerts_subsequence [of latin1LowerCase "[canada, japan]" "onlySector (js ''Government'')" 0
      "[[canada, japan]]"] e
  show ?thesis by simp
qed

section \<open>The PGP parameter\<close>

text \<open>
  C10. The PGP stage runs iff the \<open>pgp\<close> field of the filter object is exactly the
  string \<open>true\<close>: then the output is the otherwise-filtered list narrowed to the records
  with an available key, and for every other value, or none, it is the
  otherwise-filtered list itself. So for a request to \<open>/certs\<close> that reaches the
  pipeline, the records and the total of the answer are those of the same request
  without the \<open>pgp\<close> parameter, unless the parameter is exactly \<open>true\<close>.
\<close>

theorem pgp_only_when_true:
  "filterCerts lower certs f =
     (if pgp f = Some (js ''true'')
      then filter pgpMatch (filterCerts lower certs (f\<lparr>pgp := None\<rparr>))
      else filterCerts lower certs (f\<lparr>pgp := None\<rparr>)) \<and>
   (requestContext ev = Some ''GET'' \<and> rawPath ev = Some rp \<and>
    (apiPathOf rp = ''/'' \<or> apiPathOf rp = ''/certs'') \<and>
    loadCertData now dfile st = (Records certs, st') \<and> certs \<noteq> [] \<longrightarrow>
      body (fst (api_handler lower now dfile st ev)) =
        (let base = filterCerts lower certs ((parseFilters (query ev))\<lparr>pgp := None\<rparr>);
             data = (if map_of (query ev) (js ''pgp'') = Some (js ''true'')
                     then filter pgpMatch base else base)
         in CertsJson data (length data) (suppliedFilters (parseFilters (query ev)))))"
proof -
  have q: "pgp (parseFilters q) = map_of q (js ''pgp'')" for q
    by (simp add: parseFilters_def)
  have h: "body (fst (api_handler lower now dfile st ev)) =
        (let base = filterCerts lower certs ((parseFilters (query ev))\<lparr>pgp := None\<rparr>);
             data = (if map_of (query ev) (js ''pgp'') = Some (js ''true'')
                     then filter pgpMatch base else base)
         in CertsJson data (length data) (suppliedFilters (parseFilters (query ev))))"
    if "requestContext ev = Some ''GET''" "rawPath ev = Some rp"
       "apiPathOf rp = ''/'' \<or> apiPathOf rp = ''/certs''"
       "loadCertData now dfile st = (Records certs, st')" "certs \<noteq> []"
  proof -
    have "body (fst (api_handler lower now dfile st ev)) =
            CertsJson (filterCerts lower certs (parseFilters (query ev)))
              (length (filterCerts lower certs (parseFilters (query ev))))
              (suppliedFilters (parseFilters (query ev)))"
    proof -
      have "fst (api_handler lower now dfile st ev) =
              api_ok (apiPathOf rp)
                (CertsJson (filterCerts lower certs (parseFilters (query ev)))
                   (length (filterCerts lower certs (parseFilters (query ev))))
                   (suppliedFilters (parseFilters (query ev))))"
        using that(3)
        by (simp add: api_handler_GET [OF that(1,2,4,5)] Let_def)
      then show ?thesis
        by (simp add: api_ok_def)
    qed
    also have "filterCerts lower certs (parseFilters (query ev)) =
        (if map_of (query ev) (js ''pgp'') = Some (js ''true'')
         then filter pgpMatch (filterCerts lower certs ((parseFilters (query ev))\<lparr>pgp := None\<rparr>))
         else filterCerts lower certs ((parseFilters (query ev))\<lparr>pgp := None\<rparr>))"
      using filterCerts_pgp [of lower certs "parseFilters (query ev)"] by (simp only: q)
    finally show ?thesis by (simp add: Let_def)
  qed
  from filterCerts_pgp [of lower certs f] h show ?thesis by blast
qed

theorem pgp_only_when_true_witness:
  "body (fst (api_handler latin1LowerCase 1000 (Parsed (Records [canada, japan])) api_initial
            (getRequest ''/api/certs'' [(js ''pgp'', js ''TRUE'')])))
     = CertsJson [canada, japan] 2 [(''pgp'', js ''TRUE'')] \<and>
   body (fst (api_handler latin1LowerCase 1000 (Parsed (Records [canada, japan])) api_initial
            (getRequest ''/api/certs'' [(js ''pgp'', js ''true'')])))
     = CertsJson [japan] 1 [(''pgp'', js ''true'')]"
proof -
  have p: "apiPathOf ''/api/certs'' = ''/certs''"
    by (simp add: apiPathOf_def)
  have l: "loadCertData 1000 (Parsed (Records [canada, japan])) api_initial =
             (Records [canada, japan],
              \<lparr>certData = Some (Records [canada, japan]), certDataTimestamp = 1000\<rparr>)"
    by (rule loadCertData_initial)
  have n: "filterCerts latin1LowerCase [canada, japan]
             \<lparr>search = None, filters.sector = None, filters.country = None, pgp = None\<rparr>
           = [canada, japan]"
    by (simp add: filterCerts_def)
  have m: "pgpMatch japan" "\<not> pgpMatch canada"
    by (simp_all add: pgpMatch_def sample_fields)
  have k: "js ''pgp'' \<noteq> js ''search''" "js ''pgp'' \<noteq> js ''sector''" "js ''pgp'' \<noteq> js ''country''"
    "js ''TRUE'' \<noteq> js ''true''"
    by (simp_all add: js_def)
  from pgp_only_when_true [where ev = "getRequest ''/api/certs'' [(js ''pgp'', js ''TRUE'')]"
      and rp = "''/api/certs''" and now = 1000 and dfile = "Parsed (Records [canada, japan])"
      and st = api_initial and certs = "[canada, japan]" and lower = latin1LowerCase
      and st' = "\<lparr>certData = Some (Records [canada, japan]), certDataTimestamp = 1000\<rparr>",
      THEN conjunct2] p l
  have g1: "body (fst (api_handler latin1LowerCase 1000 (Parsed (Records [canada, japan])) api_initial
            (getRequest ''/api/certs'' [(js ''pgp'', js ''TRUE'')])))
     = CertsJson [canada, japan] 2 [(''pgp'', js ''TRUE'')]"
    using k by (simp add: getRequest_def n suppliedFilters_def parseFilters_def)
  from pgp_only_when_true [where ev = "getRequest ''/api/certs'' [(js ''pgp'', js ''true'')]"
      and rp = "''/api/certs''" and now = 1000 and dfile = "Parsed (Records [canada, japan])"
      and st = api_initial and certs = "[canada, japan]" and lower = latin1LowerCase
      and st' = "\<lparr>certData = Some (Records [canada, japan]), certDataTimestamp = 1000\<rparr>",
      THEN conjunct2] p l
  have g2: "body (fst (api_handler latin1LowerCase 1000 (Parsed (Records [canada, japan])) api_initial
            (getRequest ''/api/certs'' [(js ''pgp'', js ''true'')])))
     = CertsJson [japan] 1 [(''pgp'', js ''true'')]"
    using k by (simp add: getRequest_def n m suppliedFilters_def parseFilters_def)
  from g1 g2 show ?thesis by blast
qed

section \<open>The fallback to the root document\<close>

text \<open>
  C3. When the lookup of the file that a requested path stands for fails (no fresh cache
  entry, and the read of the file throws), the static resolver looks up the root document
  \<open>dist/index.html\<close>. If that lookup gives a buffer, the response has status 200, the
  root document as body (the string that its bytes decode to as UTF-8, which is the
  document itself when it is well-formed UTF-8), content type \<open>text/html\<close> and
  \<open>Cache-Control: no-cache, no-store, must-revalidate\<close>; if it fails too, the response
  has status 404 and a short HTML body. The same holds of the handler's response, after
  the CORS headers are merged in. Every \<open>GET\<close> request is answered with status 200 or
  404: a missing file never reaches the \<open>catch\<close> block.
\<close>

theorem spa_fallback:
  "(fst (getCachedFile now files cache (resolvePath rq)) = None \<longrightarrow>
     (case getCachedFile now' files cache ''dist/index.html'' of
        (Some idx, cache') \<Rightarrow>
          (let r = fst (handleStaticFile now now' files cache rq)
           in statusCode r = 200 \<and> body r = Text (bufferToString idx) \<and>
              headers r ''Content-Type'' = Some ''text/html'' \<and>
              headers r ''Cache-Control'' = Some ''no-cache, no-store, must-revalidate'') \<and>
          (rq \<noteq> [] \<longrightarrow>
             (let r = fst (static_handler now now' files cache (getRequest rq q))
              in statusCode r = 200 \<and> body r = Text (bufferToString idx) \<and>
                 headers r ''Cache-Control'' = Some ''no-cache, no-store, must-revalidate''))
      | (None, cache') \<Rightarrow>
          (let r = fst (handleStaticFile now now' files cache rq)
           in statusCode r = 404 \<and>
              body r = Text ''<h1>404 - Not Found</h1><p>The requested resource was not found.</p>'') \<and>
          (rq \<noteq> [] \<longrightarrow>
             (let r = fst (static_handler now now' files cache (getRequest rq q))
              in statusCode r = 404 \<and>
                 body r = Text ''<h1>404 - Not Found</h1><p>The requested resource was not found.</p>'')))) \<and>
   (requestContext ev = Some ''GET'' \<longrightarrow>
      statusCode (fst (static_handler now now' files cache ev)) \<in> {200, 404}) \<and>
   (fst (getCachedFile now files cache p) = None \<longleftrightarrow>
      files p = None \<and> (\<forall>e. cache p = Some e \<longrightarrow> handler_CACHE_TTL \<le> now - timestamp e))"
proof (intro conjI impI)
  show "fst (getCachedFile now files cache p) = None \<longleftrightarrow>
      files p = None \<and> (\<forall>e. cache p = Some e \<longrightarrow> handler_CACHE_TTL \<le> now - timestamp e)"
    by (auto simp: getCachedFile_def readThrough_def split: option.splits)
next
  assume miss: "fst (getCachedFile now files cache (resolvePath rq)) = None"
  obtain res cache' where g: "getCachedFile now' files cache ''dist/index.html'' = (res, cache')"
    by (cases "getCachedFile now' files cache ''dist/index.html''")
  show "case getCachedFile now' files cache ''dist/index.html'' of
        (Some idx, cache') \<Rightarrow>
          (let r = fst (handleStaticFile now now' files cache rq)
           in statusCode r = 200 \<and> body r = Text (bufferToString idx) \<and>
              headers r ''Content-Type'' = Some ''text/html'' \<and>
              headers r ''Cache-Control'' = Some ''no-cache, no-store, must-revalidate'') \<and>
          (rq \<noteq> [] \<longrightarrow>
             (let r = fst (static_handler now now' files cache (getRequest rq q))
              in statusCode r = 200 \<and> body r = Text (bufferToString idx) \<and>
                 headers r ''Cache-Control'' = Some ''no-cache, no-store, must-revalidate''))
      | (None, cache') \<Rightarrow>
          (let r = fst (handleStaticFile now now' files cache rq)
           in statusCode r = 404 \<and>
              body r = Text ''<h1>404 - Not Found</h1><p>The requested resource was not found.</p>'') \<and>
          (rq \<noteq> [] \<longrightarrow>
             (let r = fst (static_handler now now' files cache (getRequest rq q))
              in statusCode r = 404 \<and>
                 body r = Text ''<h1>404 - Not Found</h1><p>The requested resource was not found.</p>''))"
  proof (cases res)
    case None
    with g have "fst (getCachedFile now' files cache ''dist/index.html'') = None" by simp
    from handleStaticFile_notFound [OF miss this] g None show ?thesis
      by (simp add: static_handler_GET)
  next
    case (Some idx)
    from handleStaticFile_fallback [OF miss, of now' idx cache'] g Some show ?thesis
      by (simp add: static_handler_GET security_keys cors_keys map_add_def)
  qed
next
  assume "requestContext ev = Some ''GET''"
  then show "statusCode (fst (static_handler now now' files cache ev)) \<in> {200, 404}"
    by (rule static_handler_fault_free)
qed

theorem spa_fallback_witness:
  "(let r = fst (static_handler 1000 1001 siteFiles Map.empty (getRequest ''/nonexistent-page'' []))
    in statusCode r = 200 \<and> body r = Text ''<html>CERTopedia</html>'' \<and>
       headers r ''Cache-Control'' = Some ''no-cache, no-store, must-revalidate'') \<and>
   (let r = fst (static_handler 1000 1001 Map.empty Map.empty (getRequest ''/nonexistent-page'' []))
    in statusCode r = 404 \<and>
       body r = Text ''<h1>404 - Not Found</h1><p>The requested resource was not found.</p>'')"
proof -
  have rp: "resolvePath ''/nonexistent-page'' = ''dist/nonexistent-page''"
    by (simp add: resolvePath_def startsWith_def path_join_def path_normalize_def
          normalizeSegments_def normalizeStep_def)
  have m1: "fst (getCachedFile 1000 siteFiles Map.empty ''dist/nonexistent-page'') = None"
    by (simp add: getCachedFile_def readThrough_def siteFiles_def)
  have i1: "getCachedFile 1001 siteFiles Map.empty ''dist/index.html'' =
      (Some ''<html>CERTopedia</html>'',
       [''dist/index.html'' \<mapsto> \<lparr>content = ''<html>CERTopedia</html>'', timestamp = 1001\<rparr>])"
    by (simp add: getCachedFile_def readThrough_def siteFiles_def)
  have m2: "fst (getCachedFile 1000 Map.empty Map.empty ''dist/nonexistent-page'') = None"
    by (simp add: getCachedFile_def readThrough_def)
  have i2: "getCachedFile 1001 Map.empty Map.empty ''dist/index.html'' = (None, Map.empty)"
    by (simp add: getCachedFile_def readThrough_def)
  from spa_fallback [where rq = "''/nonexistent-page''" and now = 1000 and now' = 1001
      and files = siteFiles and cache = Map.empty and q = "[]",
      THEN conjunct1] m1
  have g1: "let r = fst (static_handler 1000 1001 siteFiles Map.empty (getRequest ''/nonexistent-page'' []))
    in statusCode r = 200 \<and> body r = Text ''<html>CERTopedia</html>'' \<and>
       headers r ''Cache-Control'' = Some ''no-cache, no-store, must-revalidate''"
    by (simp add: rp i1 Let_def bufferToString_wellFormed byteIn_def)
  from spa_fallback [where rq = "''/nonexistent-page''" and now = 1000 and now' = 1001
      and files = Map.empty and cache = Map.empty and q = "[]",
      THEN conjunct1] m2
  have g2: "let r = fst (static_handler 1000 1001 Map.empty Map.empty (getRequest ''/nonexistent-page'' []))
    in statusCode r = 404 \<and>
       body r = Text ''<h1>404 - Not Found</h1><p>The requested resource was not found.</p>''"
    by (simp add: rp i2 Let_def)
  from g1 g2 show ?thesis by blast
qed

section \<open>Data unavailable\<close>




text \<open>
  The \<open>/sectors\<close> route raises on a record whose sector is the name of a property of
  \<open>Object.prototype\<close>, and the \<open>catch\<close> block answers with status 500 although the
  dataset is loaded.
\<close>

lemma sectors_route_fault:
  "api_handler lower 1000
     (Parsed (Records [canada\<lparr>cert.sector := js ''constructor''\<rparr>])) api_initial
     (getRequest ''/api/sectors'' []) =
   (api_error 500 ''Internal Server Error'' ''An unexpected error occurred'',
    \<lparr>certData = Some (Records [canada\<lparr>cert.sector := js ''constructor''\<rparr>]),
      certDataTimestamp = 1000\<rparr>)"
proof -
  have g: "requestContext (getRequest p []) = Some ''GET''" "rawPath (getRequest p []) = Some p" for p
    by (simp_all add: getRequest_def)
  have p: "apiPathOf ''/api/sectors'' = ''/sectors''"
    by (simp add: apiPathOf_def)
  have t: "sectorsThrows [canada\<lparr>cert.sector := js ''constructor''\<rparr>]"
    by (simp add: sectorsThrows_def objectPrototypeKeys_def)
  show ?thesis
    by (simp add: api_handler_GET [OF g loadCertData_initial] p t api_unexpected_def)
qed

section \<open>Security and CORS headers\<close>




text \<open>
  The \<open>catch\<close> block of the static handler is outside the scope of the constant that
  holds the CORS headers: its response to an event without a method has none.
\<close>

lemma static_handler_fault_headers:
  "headers (fst (static_handler now now' files cache
             \<lparr>requestContext = None, rawPath = rp, query = q\<rparr>)) ''Access-Control-Allow-Origin''
     = None"
  by (simp add: static_handler_def map_add_def handler_securityHeaders_def)

section \<open>Body encoding\<close>

text \<open>
  C6. For every static asset that is found: if its content type starts with \<open>text/\<close> or
  contains \<open>javascript\<close> or \<open>json\<close>, the body is the text of the file, that is the
  string that its bytes decode to as UTF-8, and \<open>isBase64Encoded\<close> is false; for every
  other content type the body is the base64 encoding of the bytes of the file and
  \<open>isBase64Encoded\<close> is true. The text is the file byte for byte exactly when the file
  is well-formed UTF-8; any other file is served with U+FFFD in the place of its
  ill-formed sequences. The handler passes body and flag on unchanged.
\<close>

theorem body_encoding:
  "getCachedFile now files cache (resolvePath rq) = (Some buf, cache') \<longrightarrow>
     (let ct = getContentType (resolvePath rq);
          textual = (startsWith ct ''text/'' \<or> str_includes ct ''javascript'' \<or>
                     str_includes ct ''json'');
          r = fst (handleStaticFile now now' files cache rq)
      in (textual \<longrightarrow>
            body r = Text (bufferToString buf) \<and> isBase64Encoded r = Some False \<and>
            (body r = Text buf \<longleftrightarrow> wellFormedUtf8 buf)) \<and>
         (\<not> textual \<longrightarrow> body r = Text (bufferToBase64 buf) \<and> isBase64Encoded r = Some True) \<and>
         (rq \<noteq> [] \<longrightarrow>
            body (fst (static_handler now now' files cache (getRequest rq q))) = body r \<and>
            isBase64Encoded (fst (static_handler now now' files cache (getRequest rq q))) =
              isBase64Encoded r))"
proof
  assume g: "getCachedFile now files cache (resolvePath rq) = (Some buf, cache')"
  show "let ct = getContentType (resolvePath rq);
          textual = (startsWith ct ''text/'' \<or> str_includes ct ''javascript'' \<or>
                     str_includes ct ''json'');
          r = fst (handleStaticFile now now' files cache rq)
      in (textual \<longrightarrow>
            body r = Text (bufferToString buf) \<and> isBase64Encoded r = Some False \<and>
            (body r = Text buf \<longleftrightarrow> wellFormedUtf8 buf)) \<and>
         (\<not> textual \<longrightarrow> body r = Text (bufferToBase64 buf) \<and> isBase64Encoded r = Some True) \<and>
         (rq \<noteq> [] \<longrightarrow>
            body (fst (static_handler now now' files cache (getRequest rq q))) = body r \<and>
            isBase64Encoded (fst (static_handler now now' files cache (getRequest rq q))) =
              isBase64Encoded r)"
    by (simp add: handleStaticFile_found [OF g] static_handler_GET Let_def isText_def
          bufferToString_eq_iff)
qed

theorem body_encoding_witness:
  "(let r = fst (static_handler 1000 1000 siteFiles Map.empty (getRequest ''/assets/logo.png'' []))
    in body r = Text ''TWFu'' \<and> isBase64Encoded r = Some True) \<and>
   (let r = fst (static_handler 1000 1000 siteFiles Map.empty (getRequest ''/assets/css/styles.css'' []))
    in body r = Text ''body{}'' \<and> isBase64Encoded r = Some False) \<and>
   (let r = fst (static_handler 1000 1000
                   [''dist/a.css'' \<mapsto> [CHR 0x61, CHR 0xFF, CHR 0x62, CHR 0xC3, CHR 0xA9]]
                   Map.empty (getRequest ''/a.css'' []))
    in body r = Text [CHR 0x61, CHR 0xEF, CHR 0xBF, CHR 0xBD, CHR 0x62, CHR 0xC3, CHR 0xA9] \<and>
       isBase64Encoded r = Some False)"
proof -
  have rp: "resolvePath ''/assets/css/styles.css'' = ''dist/assets/css/styles.css''"
    "resolvePath ''/assets/logo.png'' = ''dist/assets/logo.png''"
    "resolvePath ''/a.css'' = ''dist/a.css''"
    by (simp_all add: resolvePath_def startsWith_def path_join_def path_normalize_def
          normalizeSegments_def normalizeStep_def)
  have g1: "getCachedFile 1000 siteFiles Map.empty ''dist/assets/css/styles.css'' =
             (Some ''body{}'', [''dist/assets/css/styles.css'' \<mapsto> \<lparr>content = ''body{}'', timestamp = 1000\<rparr>])"
    by (simp add: getCachedFile_def readThrough_def siteFiles_def)
  have g2: "getCachedFile 1000 siteFiles Map.empty ''dist/assets/logo.png'' =
             (Some ''Man'', [''dist/assets/logo.png'' \<mapsto> \<lparr>content = ''Man'', timestamp = 1000\<rparr>])"
    by (simp add: getCachedFile_def readThrough_def siteFiles_def)
  have g3: "getCachedFile 1000 [''dist/a.css'' \<mapsto> [CHR 0x61, CHR 0xFF, CHR 0x62, CHR 0xC3, CHR 0xA9]]
              Map.empty ''dist/a.css'' =
             (Some [CHR 0x61, CHR 0xFF, CHR 0x62, CHR 0xC3, CHR 0xA9],
              [''dist/a.css'' \<mapsto>
                 \<lparr>content = [CHR 0x61, CHR 0xFF, CHR 0x62, CHR 0xC3, CHR 0xA9], timestamp = 1000\<rparr>])"
    by (simp add: getCachedFile_def readThrough_def)
  have ct: "getContentType ''dist/assets/css/styles.css'' = ''text/css''"
    "getContentType ''dist/assets/logo.png'' = ''image/png''"
    "getContentType ''dist/a.css'' = ''text/css''"
    by (simp_all add: getContentType_def extname_def toLowerCase_def lowerChar_def mimeTypes_def)
  have b64: "bufferToBase64 ''Man'' = ''TWFu''"
    by (simp add: bufferToBase64_def sextet_def base64Alphabet_def)
  from body_encoding [where rq = "''/assets/logo.png''" and now = 1000 and now' = 1000
      and files = siteFiles and cache = Map.empty and buf = "''Man''" and q = "[]"
      and cache' = "[''dist/assets/logo.png'' \<mapsto> \<lparr>content = ''Man'', timestamp = 1000\<rparr>]"] g2
  have h1: "let r = fst (static_handler 1000 1000 siteFiles Map.empty (getRequest ''/assets/logo.png'' []))
    in body r = Text ''TWFu'' \<and> isBase64Encoded r = Some True"
    by (simp add: rp ct b64 Let_def startsWith_def)
  from body_encoding [where rq = "''/assets/css/styles.css''" and now = 1000 and now' = 1000
      and files = siteFiles and cache = Map.empty and buf = "''body{}''" and q = "[]"
      and cache' = "[''dist/assets/css/styles.css'' \<mapsto> \<lparr>content = ''body{}'', timestamp = 1000\<rparr>]"] g1
  have h2: "let r = fst (static_handler 1000 1000 siteFiles Map.empty (getRequest ''/assets/css/styles.css'' []))
    in body r = Text ''body{}'' \<and> isBase64Encoded r = Some False"
    by (simp add: rp ct byteIn_def replacementCharacter_def Let_def startsWith_def)
  from body_encoding [where rq = "''/a.css''" and now = 1000 and now' = 1000
      and files = "[''dist/a.css'' \<mapsto> [CHR 0x61, CHR 0xFF, CHR 0x62, CHR 0xC3, CHR 0xA9]]"
      and cache = Map.empty and buf = "[CHR 0x61, CHR 0xFF, CHR 0x62, CHR 0xC3, CHR 0xA9]" and q = "[]"
      and cache' = "[''dist/a.css'' \<mapsto>
                 \<lparr>content = [CHR 0x61, CHR 0xFF, CHR 0x62, CHR 0xC3, CHR 0xA9], timestamp = 1000\<rparr>]"] g3
  have h3: "let r = fst (static_handler 1000 1000
                   [''dist/a.css'' \<mapsto> [CHR 0x61, CHR 0xFF, CHR 0x62, CHR 0xC3, CHR 0xA9]]
                   Map.empty (getRequest ''/a.css'' []))
    in body r = Text [CHR 0x61, CHR 0xEF, CHR 0xBF, CHR 0xBD, CHR 0x62, CHR 0xC3, CHR 0xA9] \<and>
       isBase64Encoded r = Some False"
    by (simp add: rp ct byteIn_def replacementCharacter_def Let_def startsWith_def)
  from h1 h2 h3 show ?thesis by blast
qed

section \<open>Content type and cache control\<close>

text \<open>
  C7. The content type of a file path is the entry of the extension table for its
  lower-cased extension, and \<open>application/octet-stream\<close> when the table has no such
  entry. For every static asset that is found, the response has status 200, that
  content type, and a \<open>Cache-Control\<close> chosen by it: \<open>no-cache, no-store,
  must-revalidate\<close> for \<open>text/html\<close>, \<open>public, max-age=3600\<close> for \<open>application/json\<close>,
  and \<open>public, max-age=31536000, immutable\<close> for every other type.
\<close>

theorem content_type_and_cache_control:
  "((e, t) \<in> set mimeTypes \<and> toLowerCase (extname p) = e \<longrightarrow> getContentType p = t) \<and>
   (toLowerCase (extname p) \<notin> fst ` set mimeTypes \<longrightarrow>
      getContentType p = ''application/octet-stream'') \<and>
   (getCachedFile now files cache (resolvePath rq) = (Some buf, cache') \<and> rq \<noteq> [] \<longrightarrow>
      (let r = fst (static_handler now now' files cache (getRequest rq q));
           ct = getContentType (resolvePath rq)
       in statusCode r = 200 \<and>
          headers r ''Content-Type'' = Some ct \<and>
          headers r ''Cache-Control'' =
            Some (if ct = ''text/html'' then ''no-cache, no-store, must-revalidate''
                  else if ct = ''application/json'' then ''public, max-age=3600''
                  else ''public, max-age=31536000, immutable'')))"
proof -
  have a: "getContentType p = t" if "(e, t) \<in> set mimeTypes" "toLowerCase (extname p) = e"
    using mimeTypes_lookup [OF that(1)] that(2) by (simp add: getContentType_def)
  have b: "getContentType p = ''application/octet-stream''"
    if "toLowerCase (extname p) \<notin> fst ` set mimeTypes"
  proof -
    from that have "map_of mimeTypes (toLowerCase (extname p)) = None"
      by (simp add: map_of_eq_None_iff)
    then show ?thesis by (simp add: getContentType_def)
  qed
  have c: "let r = fst (static_handler now now' files cache (getRequest rq q));
           ct = getContentType (resolvePath rq)
       in statusCode r = 200 \<and>
          headers r ''Content-Type'' = Some ct \<and>
          headers r ''Cache-Control'' =
            Some (if ct = ''text/html'' then ''no-cache, no-store, must-revalidate''
                  else if ct = ''application/json'' then ''public, max-age=3600''
                  else ''public, max-age=31536000, immutable'')"
    if "getCachedFile now files cache (resolvePath rq) = (Some buf, cache')" "rq \<noteq> []"
    by (simp add: static_handler_GET [OF that(2)] handleStaticFile_found [OF that(1)] Let_def
          map_add_def cors_keys security_keys cacheControlFor_def)
  from a b c show ?thesis by blast
qed

theorem content_type_and_cache_control_witness:
  "getContentType ''dist/INDEX.HTML'' = ''text/html'' \<and>
   getContentType ''dist/archive.tar.gz'' = ''application/octet-stream'' \<and>
   (let r = fst (static_handler 1000 1000 siteFiles Map.empty (getRequest ''/assets/css/styles.css'' []))
    in statusCode r = 200 \<and> headers r ''Content-Type'' = Some ''text/css'' \<and>
       headers r ''Cache-Control'' = Some ''public, max-age=31536000, immutable'')"
proof -
  have e1: "toLowerCase (extname ''dist/INDEX.HTML'') = ''.html''"
    by (simp add: extname_def toLowerCase_def lowerChar_def)
  have e2: "toLowerCase (extname ''dist/archive.tar.gz'') = ''.gz''"
    by (simp add: extname_def toLowerCase_def lowerChar_def)
  have m1: "(''.html'', ''text/html'') \<in> set mimeTypes"
    by (simp add: mimeTypes_def)
  have m2: "''.gz'' \<notin> fst ` set mimeTypes"
    by (simp add: mimeTypes_def)
  have rp: "resolvePath ''/assets/css/styles.css'' = ''dist/assets/css/styles.css''"
    by (simp add: resolvePath_def startsWith_def path_join_def path_normalize_def
          normalizeSegments_def normalizeStep_def)
  have g: "getCachedFile 1000 siteFiles Map.empty ''dist/assets/css/styles.css'' =
             (Some ''body{}'', [''dist/assets/css/styles.css'' \<mapsto> \<lparr>content = ''body{}'', timestamp = 1000\<rparr>])"
    by (simp add: getCachedFile_def readThrough_def siteFiles_def)
  have ct: "getContentType ''dist/assets/css/styles.css'' = ''text/css''"
    by (simp add: getContentType_def extname_def toLowerCase_def lowerChar_def mimeTypes_def)
  from content_type_and_cache_control [where p = "''dist/INDEX.HTML''" and e = "''.html''"
      and t = "''text/html''", THEN conjunct1] e1 m1
  have g1: "getContentType ''dist/INDEX.HTML'' = ''text/html''" by simp
  from content_type_and_cache_control [where p = "''dist/archive.tar.gz''",
      THEN conjunct2, THEN conjunct1] e2 m2
  have g2: "getContentType ''dist/archive.tar.gz'' = ''application/octet-stream''" by simp
  from content_type_and_cache_control [where rq = "''/assets/css/styles.css''" and now = 1000
      and now' = 1000 and files = siteFiles and cache = Map.empty and buf = "''body{}''" and q = "[]"
      and cache' = "[''dist/assets/css/styles.css'' \<mapsto> \<lparr>content = ''body{}'', timestamp = 1000\<rparr>]",
      THEN conjunct2, THEN conjunct2] g
  have g3: "let r = fst (static_handler 1000 1000 siteFiles Map.empty (getRequest ''/assets/css/styles.css'' []))
    in statusCode r = 200 \<and> headers r ''Content-Type'' = Some ''text/css'' \<and>
       headers r ''Cache-Control'' = Some ''public, max-age=31536000, immutable''"
    by (simp add: rp ct Let_def)
  from g1 g2 g3 show ?thesis by blast
qed

section \<open>The countries view\<close>

text \<open>
  C8. The countries view has one entry per distinct country of the record list, so as
  many entries as there are distinct countries; the entries are sorted by country name,
  in the order in which \<open>Array.prototype.sort\<close> without a comparator puts strings:
  lexicographic by UTF-16 code unit, a proper prefix first (so that upper-case letters
  come before lower-case ones, and a surrogate pair before a code unit above
  \<open>0xDFFF\<close>); and each entry pairs the name with the number of records of that country,
  which is positive. A \<open>GET\<close> of \<open>/countries\<close> on a dataset that is not empty returns this
  view.
\<close>

theorem countries_view:
  "distinct (map fst (countriesView certs)) \<and>
   set (map fst (countriesView certs)) = cert.country ` set certs \<and>
   length (countriesView certs) = card (cert.country ` set certs) \<and>
   sorted (map fst (countriesView certs)) \<and>
   (\<forall>(n, k) \<in> set (countriesView certs).
      k = length (filter (\<lambda>c. cert.country c = n) certs) \<and> 0 < k) \<and>
   (requestContext ev = Some ''GET'' \<and> rawPath ev = Some rp \<and> apiPathOf rp = ''/countries'' \<and>
    loadCertData now dfile st = (Records certs, st') \<and> certs \<noteq> [] \<longrightarrow>
      fst (api_handler lower now dfile st ev) =
        api_ok ''/countries'' (CountriesJson (countriesView certs)))"
proof -
  let ?names = "sort (uniq (map cert.country certs))"
  have names: "map fst (countriesView certs) = ?names"
    by (simp add: countriesView_def comp_def)
  have d: "distinct ?names" by simp
  have s: "set ?names = cert.country ` set certs" by simp
  have l: "length (countriesView certs) = card (cert.country ` set certs)"
    using distinct_card [OF d] s
    by (metis length_map names)
  have k: "k = length (filter (\<lambda>c. cert.country c = n) certs) \<and> 0 < k"
    if "(n, k) \<in> set (countriesView certs)" for n k
  proof -
    from that have "n \<in> cert.country ` set certs"
      and "k = length (filter (\<lambda>c. cert.country c = n) certs)"
      by (auto simp: countriesView_def)
    then show ?thesis
      by (auto simp: length_greater_0_conv filter_empty_conv)
  qed
  have h: "fst (api_handler lower now dfile st ev) =
             api_ok ''/countries'' (CountriesJson (countriesView certs))"
    if "requestContext ev = Some ''GET''" "rawPath ev = Some rp" "apiPathOf rp = ''/countries''"
       "loadCertData now dfile st = (Records certs, st')" "certs \<noteq> []"
    using that(3,5) by (simp add: api_handler_GET [OF that(1,2,4,5)])
  from d s l k h show ?thesis
    unfolding names by (auto simp: names)
qed

theorem countries_view_witness:
  "countriesView [japan, canada, japan] = [(js ''Canada'', 1), (js ''Japan'', 2)] \<and>
   fst (api_handler latin1LowerCase 1000 (Parsed (Records [japan, canada, japan])) api_initial
          (getRequest ''/api/countries'' []))
     = api_ok ''/countries'' (CountriesJson [(js ''Canada'', 1), (js ''Japan'', 2)]) \<and>
   countriesView [canada\<lparr>cert.country := [0xFF21]\<rparr>, japan\<lparr>cert.country := [0xD83D, 0xDE00]\<rparr>,
                  japan\<lparr>cert.country := js ''japan''\<rparr>, japan]
     = [([0x4A, 0x61, 0x70, 0x61, 0x6E], 1), ([0x6A, 0x61, 0x70, 0x61, 0x6E], 1),
        ([0xD83D, 0xDE00], 1), ([0xFF21], 1)]"
proof -
  have v: "countriesView [japan, canada, japan] = [(js ''Canada'', 1), (js ''Japan'', 2)]"
    by (simp add: countriesView_def uniq_def canada_def japan_def js_def)
  have w: "countriesView [canada\<lparr>cert.country := [0xFF21]\<rparr>, japan\<lparr>cert.country := [0xD83D, 0xDE00]\<rparr>,
                  japan\<lparr>cert.country := js ''japan''\<rparr>, japan]
     = [([0x4A, 0x61, 0x70, 0x61, 0x6E], 1), ([0x6A, 0x61, 0x70, 0x61, 0x6E], 1),
        ([0xD83D, 0xDE00], 1), ([0xFF21], 1)]"
    by (simp add: countriesView_def uniq_def canada_def japan_def js_def)
  have p: "apiPathOf ''/api/countries'' = ''/countries''"
    by (simp add: apiPathOf_def)
  have ne: "[japan, canada, japan] \<noteq> []" by simp
  from countries_view [where ev = "getRequest ''/api/countries'' []" and rp = "''/api/countries''"
      and now = 1000 and dfile = "Parsed (Records [japan, canada, japan])" and st = api_initial
      and certs = "[japan, canada, japan]" and lower = latin1LowerCase
      and st' = "\<lparr>certData = Some (Records [japan, canada, japan]), certDataTimestamp = 1000\<rparr>"]
    p loadCertData_initial [of 1000 "Records [japan, canada, japan]"] v w
  show ?thesis
    by (simp add: getRequest_def)
qed

end
